theory Spec2Isabelle
  imports Complex_Main "HOL-Library.Word"
begin

section \<open>Motion planner: data model\<close>

text \<open>
  A shallow embedding of \<^verbatim>\<open>motion_planner/src/motion_planner.cpp\<close>.
  The C++ \<^verbatim>\<open>double\<close> is idealised as \<^typ>\<open>real\<close>: rounding, infinities and
  NaN are outside the model, and every place where the C++ would leave the finite
  numbers (a division by zero) is an explicit error branch. \<^verbatim>\<open>size_t\<close> is a
  64-bit word and \<^verbatim>\<open>int\<close> a 32-bit word where the code converts between them.
  A \<^verbatim>\<open>ros::Time\<close> is a real number of seconds.
\<close>

text \<open>Everything the C++ does other than returning a value.\<close>

datatype error =
    LengthError         \<comment> \<open>\<^verbatim>\<open>vector::resize\<close> with a negative count converted to \<^verbatim>\<open>size_t\<close>\<close>
  | NonFiniteDouble     \<comment> \<open>a division by zero: the result is not a real number\<close>
  | CastOutOfRange      \<comment> \<open>\<^verbatim>\<open>static_cast<int>\<close> of a double outside the range of \<^verbatim>\<open>int\<close>\<close>
  | OutOfRange          \<comment> \<open>\<^verbatim>\<open>unordered_map::at\<close> on a missing key\<close>
  | AssertionFailed     \<comment> \<open>\<^verbatim>\<open>ROS_ASSERT\<close>\<close>
  | UndefinedBehaviour  \<comment> \<open>an iterator range that ends before it starts, \<^verbatim>\<open>back()\<close> of an empty vector\<close>

text \<open>\<^verbatim>\<open>planning_msgs::PathPoint\<close> and \<^verbatim>\<open>planning_msgs::TrajectoryPoint\<close>, with the
  fields the planner reads and writes.\<close>

record path_point =
  pp_x :: real
  pp_y :: real
  pp_theta :: real
  pp_s :: real
  pp_kappa :: real
  pp_dkappa :: real

record trajectory_point =
  path_point :: path_point
  vel :: real
  acc :: real
  jerk :: real
  steer_angle :: real
  relative_time :: real

text \<open>A default-constructed ROS message has every numeric field zero.\<close>

definition default_path_point :: path_point where
  "default_path_point =
     \<lparr>pp_x = 0, pp_y = 0, pp_theta = 0, pp_s = 0, pp_kappa = 0, pp_dkappa = 0\<rparr>"

definition default_trajectory_point :: trajectory_point where
  "default_trajectory_point =
     \<lparr>path_point = default_path_point, vel = 0, acc = 0, jerk = 0, steer_angle = 0,
      relative_time = 0\<rparr>"

datatype trajectory_status = NORMAL | EMPTY | EMERGENCYSTOP

text \<open>\<^verbatim>\<open>planning_msgs::Trajectory\<close>: the points, \<^verbatim>\<open>header.stamp\<close> and the status.\<close>

record trajectory =
  trajectory_points :: "trajectory_point list"
  stamp :: real
  status :: trajectory_status

text \<open>\<^verbatim>\<open>vehicle_state::KinoDynamicState\<close>.\<close>

record kino_dynamic_state =
  ks_x :: real
  ks_y :: real
  ks_z :: real
  ks_theta :: real
  ks_kappa :: real
  ks_v :: real
  ks_a :: real

text \<open>The values read through \<^verbatim>\<open>PlanningConfig::Instance()\<close>. The class is not part
  of the file; its accessors are the fields of a record passed to every function.\<close>

record planning_config =
  loop_rate :: int
  preserve_history_trajectory_point_num :: "64 word"
  max_lookahead_time :: real
  delta_t :: real
  max_lon_acc :: real
  max_lat_acc :: real
  desired_velocity :: real
  max_replan_lat_distance_threshold :: real
  max_replan_lon_distance_threshold :: real

section \<open>GenerateEmergencyStopTrajectory\<close>

text \<open>\<^verbatim>\<open>static_cast<int>(double)\<close> truncates towards zero and is undefined outside the
  range of \<^verbatim>\<open>int\<close>.\<close>

definition double_to_int :: "real \<Rightarrow> error + int" where
  "double_to_int r =
     (let q = (if 0 \<le> r then \<lfloor>r\<rfloor> else \<lceil>r\<rceil>)
      in if q < - (2 ^ 31) \<or> 2 ^ 31 \<le> q then Inl CastOutOfRange else Inr q)"

text \<open>The local variables of the loop of \<^verbatim>\<open>GenerateEmergencyStopTrajectory\<close>: the
  \<^verbatim>\<open>last_*\<close> doubles, the running point \<^verbatim>\<open>tp\<close> (here \<open>loop_tp\<close>) and the output vector.\<close>

record estop_locals =
  last_x :: real
  last_y :: real
  last_v :: real
  last_a :: real
  last_theta :: real
  last_s :: real
  loop_tp :: trajectory_point
  out_points :: "trajectory_point list"

text \<open>One iteration of the \<^verbatim>\<open>for\<close> loop, for the counter \<open>i\<close>. Every assignment
  is in the order of the source; \<^verbatim>\<open>tp.vel\<close> is computed from the initial velocity
  and \<^verbatim>\<open>last_a\<close>, as the source has it.\<close>

definition estop_iteration ::
  "real \<Rightarrow> real \<Rightarrow> real \<Rightarrow> trajectory_point \<Rightarrow> estop_locals \<Rightarrow> nat \<Rightarrow> estop_locals" where
  "estop_iteration kTimeGap max_decel stop_time init_trajectory_point l i =
     (let t = real i * kTimeGap + relative_time init_trajectory_point;
          ds = (0.5 * last_a l * kTimeGap + last_v l) * kTimeGap;
          tp1 = (loop_tp l)\<lparr>
            relative_time := t,
            vel := vel init_trajectory_point - last_a l * kTimeGap,
            acc := (if t \<le> stop_time then - max_decel else 0),
            jerk := 0,
            path_point := (path_point (loop_tp l))\<lparr>
              pp_x := last_x l + cos (last_theta l) * ds,
              pp_y := last_y l + sin (last_theta l) * ds,
              pp_theta := last_theta l,
              pp_s := last_s l + ds,
              pp_dkappa := 0,
              pp_kappa := 0\<rparr>,
            steer_angle := steer_angle init_trajectory_point\<rparr>
      in \<lparr>last_x = pp_x (path_point tp1),
          last_y = pp_y (path_point tp1),
          last_v = vel tp1,
          last_a = acc tp1,
          last_theta = pp_theta (path_point tp1),
          last_s = pp_s (path_point tp1),
          loop_tp = tp1,
          out_points = out_points l @ [tp1]\<rparr>)"

text \<open>The whole function. \<^verbatim>\<open>resize(num_traj_point)\<close> fills the cleared vector with
  \<open>num_traj_point\<close> default points, and every \<^verbatim>\<open>push_back\<close> appends after them.
  The result is the vector \<^verbatim>\<open>emergency_stop_trajectory.trajectory_points\<close>.
  A time step of 0 makes the quotient infinite or NaN, whose conversion to \<^verbatim>\<open>int\<close> is
  undefined. A deceleration of 0 is no error: \<^verbatim>\<open>stop_time\<close> is then infinite or NaN in
  the code, but it only selects between \<open>- max_decel\<close> and 0, which are both 0.\<close>

definition GenerateEmergencyStopTrajectory ::
  "planning_config \<Rightarrow> trajectory_point \<Rightarrow> error + trajectory_point list" where
  "GenerateEmergencyStopTrajectory cfg init_trajectory_point =
     (let kMaxTrajectoryTime = max_lookahead_time cfg;
          kTimeGap = delta_t cfg
      in if kTimeGap = 0 then Inl NonFiniteDouble
         else case double_to_int (kMaxTrajectoryTime / kTimeGap) of
           Inl e \<Rightarrow> Inl e
         | Inr num_traj_point \<Rightarrow>
            if num_traj_point < 0 then Inl LengthError
            else
              let max_decel = max_lon_acc cfg;
                  stop_time = vel init_trajectory_point / max_decel;
                  tp0 = init_trajectory_point\<lparr>relative_time := 0, acc := - max_decel\<rparr>;
                  l0 = \<lparr>last_x = pp_x (path_point init_trajectory_point),
                        last_y = pp_y (path_point init_trajectory_point),
                        last_v = vel init_trajectory_point,
                        last_a = max_decel,
                        last_theta = pp_theta (path_point init_trajectory_point),
                        last_s = pp_s (path_point init_trajectory_point),
                        loop_tp = tp0,
                        out_points =
                          replicate (nat num_traj_point) default_trajectory_point @ [tp0]\<rparr>
              in Inr (out_points
                   (foldl (estop_iteration kTimeGap max_decel stop_time init_trajectory_point)
                      l0 [1 ..< nat num_traj_point])))"

section \<open>Stitching\<close>

definition ComputeTrajectoryPointFromVehicleState ::
  "real \<Rightarrow> kino_dynamic_state \<Rightarrow> trajectory_point" where
  "ComputeTrajectoryPointFromVehicleState planning_cycle_time kinodynamic_state =
     default_trajectory_point\<lparr>
       relative_time := planning_cycle_time,
       path_point := default_path_point\<lparr>
         pp_x := ks_x kinodynamic_state,
         pp_y := ks_y kinodynamic_state,
         pp_s := 0,
         pp_theta := ks_theta kinodynamic_state,
         pp_kappa := ks_kappa kinodynamic_state\<rparr>,
       vel := ks_v kinodynamic_state,
       acc := ks_a kinodynamic_state,
       jerk := 0\<rparr>"

text \<open>\<^verbatim>\<open>KinoDynamicState::GetNextStateAfterTime\<close> is declared outside the file: it is
  the parameter \<open>GetNextStateAfterTime\<close>.\<close>

definition ComputeReinitStitchingTrajectory ::
  "(kino_dynamic_state \<Rightarrow> real \<Rightarrow> kino_dynamic_state) \<Rightarrow> real \<Rightarrow> kino_dynamic_state
     \<Rightarrow> trajectory_point list" where
  "ComputeReinitStitchingTrajectory GetNextStateAfterTime planning_cycle_time kino_dynamic_state =
     (let kEpsilon_v = 0.1; kEpsilon_a = 0.4;
          reinit_point =
            (if \<bar>ks_a kino_dynamic_state\<bar> < kEpsilon_a \<and> \<bar>ks_v kino_dynamic_state\<bar> < kEpsilon_v
             then ComputeTrajectoryPointFromVehicleState planning_cycle_time kino_dynamic_state
             else ComputeTrajectoryPointFromVehicleState planning_cycle_time
                    (GetNextStateAfterTime kino_dynamic_state planning_cycle_time))
      in replicate 1 reinit_point)"

text \<open>\<^verbatim>\<open>std::numeric_limits<double>::max()\<close>.\<close>

definition DBL_MAX :: real where
  "DBL_MAX = (2 - 1 / 2 ^ 52) * 2 ^ 1023"

definition kEps :: real where
  "kEps = 1 / 100000"

definition dist_sqr :: "real \<times> real \<Rightarrow> trajectory_point \<Rightarrow> real" where
  "dist_sqr xy p =
     (pp_x (path_point p) - fst xy) * (pp_x (path_point p) - fst xy) +
     (pp_y (path_point p) - snd xy) * (pp_y (path_point p) - snd xy)"

text \<open>The scan of \<^verbatim>\<open>GetPositionMatchedIndex\<close> from index \<open>i\<close> on, with the running
  \<^verbatim>\<open>min_dist_sqr\<close> and \<^verbatim>\<open>min_index\<close>.\<close>

fun position_scan ::
  "real \<times> real \<Rightarrow> trajectory_point list \<Rightarrow> nat \<Rightarrow> real \<times> nat \<Rightarrow> real \<times> nat" where
  "position_scan xy [] i (min_dist_sqr, min_index) = (min_dist_sqr, min_index)"
| "position_scan xy (p # ps) i (min_dist_sqr, min_index) =
     (if dist_sqr xy p < min_dist_sqr + kEps
      then position_scan xy ps (Suc i) (dist_sqr xy p, i)
      else position_scan xy ps (Suc i) (min_dist_sqr, min_index))"

definition GetPositionMatchedIndex ::
  "real \<times> real \<Rightarrow> trajectory_point list \<Rightarrow> error + nat" where
  "GetPositionMatchedIndex xy trajectory =
     (if trajectory = [] then Inl AssertionFailed
      else Inr (snd (position_scan xy trajectory 0 (DBL_MAX, 0))))"

text \<open>\<^verbatim>\<open>std::lower_bound\<close>, a function of the C++ standard library, as the library
  implements it: a binary search that halves the range \<open>[first, first + len)\<close>, going
  right of the middle element where the comparison holds for it and left otherwise. On a
  range that is not partitioned by the comparison the result is what this search finds.\<close>

function lower_bound_loop :: "('a \<Rightarrow> 'b \<Rightarrow> bool) \<Rightarrow> 'a list \<Rightarrow> 'b \<Rightarrow> nat \<Rightarrow> nat \<Rightarrow> nat" where
  "lower_bound_loop cmp xs v first len =
     (if len = 0 then first
      else
        let half = len div 2;
            middle = first + half
        in if cmp (xs ! middle) v
           then lower_bound_loop cmp xs v (middle + 1) (len - half - 1)
           else lower_bound_loop cmp xs v first half)"
  by pat_completeness auto
termination
  by (relation "measure (\<lambda>(cmp, xs, v, first, len). len)") auto

definition lower_bound :: "('a \<Rightarrow> 'b \<Rightarrow> bool) \<Rightarrow> 'a list \<Rightarrow> 'b \<Rightarrow> nat" where
  "lower_bound cmp xs v = lower_bound_loop cmp xs v 0 (length xs)"

definition GetTimeMatchIndex :: "real \<Rightarrow> real \<Rightarrow> trajectory_point list \<Rightarrow> error + nat" where
  "GetTimeMatchIndex relative eps trajectory =
     (if trajectory = [] then Inl AssertionFailed
      else if relative > relative_time (last trajectory) then Inr (length trajectory - 1)
      else Inr (lower_bound (\<lambda>p rel. relative_time p + eps < rel) trajectory relative))"

text \<open>The pair is (longitudinal, lateral), \<^verbatim>\<open>sd.first\<close> and \<^verbatim>\<open>sd.second\<close>.\<close>

definition GetLatAndLonDistFromRefPoint :: "real \<Rightarrow> real \<Rightarrow> path_point \<Rightarrow> real \<times> real" where
  "GetLatAndLonDistFromRefPoint x y point =
     (let v = (x - pp_x point, y - pp_y point);
          n = (cos (pp_theta point), sin (pp_theta point))
      in (fst v * fst n + snd n + snd v + pp_s point,
          fst v * snd n - snd v * fst n))"

text \<open>\<^verbatim>\<open>std::max(0, static_cast<int>(matched_index - preserve_points_num))\<close>: the
  subtraction is in \<^verbatim>\<open>size_t\<close> and wraps, the conversion to \<^verbatim>\<open>int\<close> keeps the low
  32 bits and reads them as two's complement.\<close>

definition slice_start_index :: "nat \<Rightarrow> 64 word \<Rightarrow> nat" where
  "slice_start_index matched_index preserve_points_num =
     nat (max 0 (sint (ucast (word_of_nat matched_index - preserve_points_num :: 64 word) :: 32 word)))"

text \<open>The loop that re-bases the slice.\<close>

definition rebase :: "real \<Rightarrow> real \<Rightarrow> trajectory_point \<Rightarrow> trajectory_point" where
  "rebase time_shift zero_s p =
     p\<lparr>relative_time := relative_time p + time_shift,
       path_point := (path_point p)\<lparr>pp_s := pp_s (path_point p) - zero_s\<rparr>\<rparr>"

text \<open>The world: \<^verbatim>\<open>derived_object_msgs::Object\<close> (its id and \<^verbatim>\<open>pose.position\<close>),
  \<^verbatim>\<open>carla_msgs::CarlaTrafficLightStatus\<close> and \<^verbatim>\<open>carla_msgs::CarlaTrafficLightInfo\<close>
  (its id and \<^verbatim>\<open>trigger_volume.center\<close>).\<close>

record object =
  obj_id :: int
  obj_pos_x :: real
  obj_pos_y :: real
  obj_pos_z :: real

datatype light_state = RED | YELLOW | GREEN | OFF | UNKNOWN

record traffic_light_status =
  tls_id :: int
  tls_state :: light_state

record traffic_light_info =
  tli_id :: int
  tv_center_x :: real
  tv_center_y :: real
  tv_center_z :: real

text \<open>The members of \<^verbatim>\<open>MotionPlanner\<close> that \<^verbatim>\<open>RunOnce\<close> reads and writes. An
  \<^verbatim>\<open>unordered_map<int, T>\<close> is the list of its entries in iteration order;
  \<open>vehicle_state\<close> is what \<^verbatim>\<open>vehicle_state_->GetKinoDynamicVehicleState()\<close> returns;
  \<open>published\<close> collects what \<^verbatim>\<open>trajectory_publisher_.publish\<close> was given.\<close>

record motion_planner =
  ego_vehicle_id :: int
  objects_map :: "(int \<times> object) list"
  traffic_light_status_list :: "(int \<times> traffic_light_status) list"
  traffic_lights_info_list :: "(int \<times> traffic_light_info) list"
  ego_object :: object
  vehicle_state :: kino_dynamic_state
  has_history_trajectory :: bool
  history_trajectory :: trajectory
  published :: "trajectory list"

definition GetStitchingTrajectory ::
  "(kino_dynamic_state \<Rightarrow> real \<Rightarrow> kino_dynamic_state) \<Rightarrow> planning_config \<Rightarrow> motion_planner
     \<Rightarrow> real \<Rightarrow> real \<Rightarrow> 64 word \<Rightarrow> error + trajectory_point list" where
  "GetStitchingTrajectory GetNextStateAfterTime cfg mp current_time_stamp planning_cycle_time
       preserve_points_num =
     (let state = vehicle_state mp;
          history = trajectory_points (history_trajectory mp);
          reinit = ComputeReinitStitchingTrajectory GetNextStateAfterTime planning_cycle_time state
      in if \<not> has_history_trajectory mp then Inr reinit
         else if history = [] then Inr reinit
         else
          (let relative = current_time_stamp - stamp (history_trajectory mp)
           in (case GetTimeMatchIndex relative (1 / 100000) history of
             Inl e \<Rightarrow> Inl e
           | Inr time_matched_index \<Rightarrow>
              (if time_matched_index = 0 \<and> relative < relative_time (hd history) then Inr reinit
               else if length history - 1 \<le> time_matched_index then Inr reinit
               else
                (let time_matched_tp = history ! time_matched_index
                 in (case GetPositionMatchedIndex (ks_x state, ks_y state) history of
                   Inl e \<Rightarrow> Inl e
                 | Inr position_matched_index \<Rightarrow>
                    (let position_matched_tp = history ! position_matched_index;
                         sd = GetLatAndLonDistFromRefPoint (ks_x state) (ks_y state)
                                (path_point position_matched_tp);
                         lon_diff = pp_s (path_point time_matched_tp) - fst sd;
                         lat_diff = snd sd
                     in if \<bar>lat_diff\<bar> > max_replan_lat_distance_threshold cfg then Inr reinit
                        else if \<bar>lon_diff\<bar> > max_replan_lon_distance_threshold cfg then Inr reinit
                        else
                         (let forward_rel_time = relative + planning_cycle_time
                          in (case GetTimeMatchIndex forward_rel_time (1 / 100000) history of
                            Inl e \<Rightarrow> Inl e
                          | Inr forward_rel_matched_index \<Rightarrow>
                             (let matched_index = min position_matched_index time_matched_index;
                                  first = slice_start_index matched_index preserve_points_num;
                                  last_excl = forward_rel_matched_index + 1
                              in if last_excl < first then Inl UndefinedBehaviour
                                 else
                                  (let stitching_trajectory =
                                         take (last_excl - first) (drop first history)
                                   in if stitching_trajectory = [] then Inl UndefinedBehaviour
                                      else
                                       (let zero_s = pp_s (path_point (last stitching_trajectory))
                                        in Inr (map (rebase
                                                  (stamp (history_trajectory mp) - current_time_stamp)
                                                  zero_s)
                                                stitching_trajectory)))))))))))))"

section \<open>GetKeyObstacle\<close>

text \<open>The class \<^verbatim>\<open>Obstacle\<close> is declared outside the file. An obstacle is what it was
  constructed from (an object, or a traffic light's info and status) and the trajectory
  that \<^verbatim>\<open>PredictTrajectory\<close>, a parameter here, attaches to it.\<close>

datatype obstacle_source =
    DynamicObject object
  | TrafficSignal traffic_light_info traffic_light_status

record obstacle =
  obs_source :: obstacle_source
  obs_trajectory :: "trajectory_point list"

text \<open>\<^verbatim>\<open>std::hypot\<close>.\<close>

definition hypot :: "real \<Rightarrow> real \<Rightarrow> real" where
  "hypot a b = sqrt (a * a + b * b)"

text \<open>The body of the first loop: the entries of \<open>objects\<close> that are not skipped by
  \<^verbatim>\<open>continue\<close> and pass the test on \<open>dist\<close> and \<open>height_diff\<close>.\<close>

definition object_selected :: "trajectory_point \<Rightarrow> object \<Rightarrow> int \<Rightarrow> int \<times> object \<Rightarrow> bool" where
  "object_selected trajectory_point ego_obj ego_id entry =
     (let radius = 50 in
      if fst entry = ego_id then False
      else
        let dist = hypot (pp_x (path_point trajectory_point) - obj_pos_x (snd entry))
                         (pp_y (path_point trajectory_point) - obj_pos_y (snd entry));
            height_diff = \<bar>obj_pos_z (snd entry) - obj_pos_z ego_obj\<bar>
        in dist < radius \<and> height_diff < 1.5)"

text \<open>The body of the second loop, for one entry of \<open>traffic_lights_info_list\<close>: the
  status the obstacle is built with, or \<open>None\<close> when the entry is skipped.\<close>

definition light_selected ::
  "trajectory_point \<Rightarrow> object \<Rightarrow> (int \<times> traffic_light_status) list \<Rightarrow> int \<times> traffic_light_info
     \<Rightarrow> traffic_light_status option" where
  "light_selected trajectory_point ego_obj light_status_list light_info =
     (let radius = 50; id = fst light_info in
      case map_of light_status_list id of
        None \<Rightarrow> None
      | Some light_status \<Rightarrow>
          if tls_state light_status = GREEN \<or> tls_state light_status = UNKNOWN then None
          else
            let x = tv_center_x (snd light_info);
                y = tv_center_y (snd light_info);
                z = tv_center_z (snd light_info);
                dist = hypot (pp_x (path_point trajectory_point) - x)
                             (pp_y (path_point trajectory_point) - y);
                height_diff = \<bar>z - obj_pos_z ego_obj\<bar>
            in if dist < radius \<and> height_diff < 1.5 then Some light_status else None)"

definition make_obstacle ::
  "(obstacle_source \<Rightarrow> real \<Rightarrow> real \<Rightarrow> trajectory_point list) \<Rightarrow> planning_config
     \<Rightarrow> obstacle_source \<Rightarrow> obstacle" where
  "make_obstacle PredictTrajectory cfg src =
     \<lparr>obs_source = src,
      obs_trajectory = PredictTrajectory src (max_lookahead_time cfg) (delta_t cfg)\<rparr>"

definition GetKeyObstacle ::
  "(obstacle_source \<Rightarrow> real \<Rightarrow> real \<Rightarrow> trajectory_point list) \<Rightarrow> planning_config
     \<Rightarrow> (int \<times> object) list \<Rightarrow> (int \<times> traffic_light_status) list
     \<Rightarrow> (int \<times> traffic_light_info) list \<Rightarrow> trajectory_point \<Rightarrow> int
     \<Rightarrow> error + obstacle list" where
  "GetKeyObstacle PredictTrajectory cfg objects light_status_list lights_info_list
       trajectory_point ego_id =
     (case map_of objects ego_id of
        None \<Rightarrow> Inl OutOfRange
      | Some ego_obj \<Rightarrow>
          Inr (map (\<lambda>entry. make_obstacle PredictTrajectory cfg (DynamicObject (snd entry)))
                 (filter (object_selected trajectory_point ego_obj ego_id) objects)
               @ List.map_filter
                   (\<lambda>light_info.
                      map_option
                        (\<lambda>light_status. make_obstacle PredictTrajectory cfg
                           (TrafficSignal (snd light_info) light_status))
                        (light_selected trajectory_point ego_obj light_status_list light_info))
                   lights_info_list))"

section \<open>GetPlanningTargets\<close>

text \<open>\<^verbatim>\<open>ReferenceLine\<close> is declared outside the file. The four operations that
  \<^verbatim>\<open>GetPlanningTargets\<close> calls are the fields of a record: \<^verbatim>\<open>XYToSL\<close> (with
  \<open>None\<close> for \<^verbatim>\<open>false\<close>), \<^verbatim>\<open>Length\<close>, \<^verbatim>\<open>IsOnLane\<close> and the curvature of
  \<^verbatim>\<open>GetReferencePoint(s)\<close>.\<close>

record sl_point =
  sl_s :: real
  sl_l :: real

record reference_line =
  XYToSL :: "real \<Rightarrow> real \<Rightarrow> sl_point option"
  Length :: real
  IsOnLane :: "sl_point \<Rightarrow> bool"
  ReferencePointKappa :: "real \<Rightarrow> real"

record planning_target =
  ref_lane :: reference_line
  has_stop_point :: bool
  stop_s :: real
  is_best_behaviour :: bool
  desired_vel :: real

definition planning_target_of ::
  "planning_config \<Rightarrow> trajectory_point \<Rightarrow> reference_line \<Rightarrow> planning_target option" where
  "planning_target_of cfg init_point ref_line =
     (case XYToSL ref_line (pp_x (path_point init_point)) (pp_y (path_point init_point)) of
        None \<Rightarrow> None
      | Some sl_pt \<Rightarrow>
          let stop = (Length ref_line < sl_s sl_pt + 50)
          in Some \<lparr>ref_lane = ref_line,
                   has_stop_point = stop,
                   stop_s = (if stop then Length ref_line else DBL_MAX),
                   is_best_behaviour = IsOnLane ref_line sl_pt,
                   desired_vel =
                     min (desired_velocity cfg)
                         (max_lat_acc cfg
                            / (\<bar>ReferencePointKappa ref_line (sl_s sl_pt)\<bar> + 1 / 10000))\<rparr>)"

definition GetPlanningTargets ::
  "planning_config \<Rightarrow> reference_line list \<Rightarrow> trajectory_point \<Rightarrow> planning_target list" where
  "GetPlanningTargets cfg ref_lines init_point =
     List.map_filter (planning_target_of cfg init_point) ref_lines"

section \<open>RunOnce\<close>

text \<open>What one cycle gets from outside the file: the clock, the vehicle state computed
  by \<^verbatim>\<open>vehicle_state_->Update\<close>, the answer of
  \<^verbatim>\<open>reference_generator_->GetReferenceLines\<close> (\<open>None\<close> for \<^verbatim>\<open>false\<close>), the
  trajectory planner's \<^verbatim>\<open>Process\<close> (\<open>None\<close> for \<^verbatim>\<open>false\<close>, else the points it
  wrote), \<^verbatim>\<open>Obstacle::PredictTrajectory\<close> and
  \<^verbatim>\<open>KinoDynamicState::GetNextStateAfterTime\<close>.\<close>

record collaborators =
  env_now :: real
  env_VehicleStateUpdate :: "object \<Rightarrow> kino_dynamic_state"
  env_GetReferenceLines :: "reference_line list option"
  env_Process :: "obstacle list \<Rightarrow> trajectory_point \<Rightarrow> planning_target list \<Rightarrow> trajectory_point list option"
  env_PredictTrajectory :: "obstacle_source \<Rightarrow> real \<Rightarrow> real \<Rightarrow> trajectory_point list"
  env_GetNextStateAfterTime :: "kino_dynamic_state \<Rightarrow> real \<Rightarrow> kino_dynamic_state"

text \<open>The block that both failure branches of \<^verbatim>\<open>RunOnce\<close> run before they return.\<close>

definition emergency_stop_branch ::
  "planning_config \<Rightarrow> real \<Rightarrow> trajectory_point \<Rightarrow> motion_planner \<Rightarrow> error + motion_planner" where
  "emergency_stop_branch cfg current_time_stamp init_trajectory_point mp =
     (case GenerateEmergencyStopTrajectory cfg init_trajectory_point of
        Inl e \<Rightarrow> Inl e
      | Inr points \<Rightarrow>
          Inr (mp\<lparr>has_history_trajectory := False,
                  published := published mp @
                    [\<lparr>trajectory_points = points, stamp = current_time_stamp,
                      status = EMERGENCYSTOP\<rparr>]\<rparr>))"

definition RunOnce :: "collaborators \<Rightarrow> planning_config \<Rightarrow> motion_planner \<Rightarrow> error + motion_planner" where
  "RunOnce env cfg mp =
     (let current_time_stamp = env_now env
      in if ego_vehicle_id mp = - 1 then Inr mp
         else
          (case map_of (objects_map mp) (ego_vehicle_id mp) of
             None \<Rightarrow> Inr mp
           | Some ego \<Rightarrow>
              (let mp1 = mp\<lparr>ego_object := ego, vehicle_state := env_VehicleStateUpdate env ego\<rparr>
               in if loop_rate cfg = 0 then Inl NonFiniteDouble
                  else
                   (case GetStitchingTrajectory (env_GetNextStateAfterTime env) cfg mp1
                           current_time_stamp (1 / real_of_int (loop_rate cfg))
                           (preserve_history_trajectory_point_num cfg) of
                      Inl e \<Rightarrow> Inl e
                    | Inr stitching_trajectory \<Rightarrow>
                       (if stitching_trajectory = [] then Inl UndefinedBehaviour
                        else
                         (let init_trajectory_point = last stitching_trajectory
                          in (case env_GetReferenceLines env of
                             None \<Rightarrow>
                               emergency_stop_branch cfg current_time_stamp init_trajectory_point mp1
                           | Some ref_lines \<Rightarrow>
                              (case GetKeyObstacle (env_PredictTrajectory env) cfg (objects_map mp1)
                                      (traffic_light_status_list mp1) (traffic_lights_info_list mp1)
                                      init_trajectory_point (ego_vehicle_id mp1) of
                                 Inl e \<Rightarrow> Inl e
                               | Inr obstacles \<Rightarrow>
                                  (let planning_targets =
                                         GetPlanningTargets cfg ref_lines init_trajectory_point
                                   in (case env_Process env obstacles init_trajectory_point
                                             planning_targets of
                                      None \<Rightarrow>
                                        emergency_stop_branch cfg current_time_stamp
                                          init_trajectory_point mp1
                                    | Some planned \<Rightarrow>
                                       (let points = butlast stitching_trajectory @ planned;
                                            optimal_trajectory =
                                              \<lparr>trajectory_points = points,
                                               stamp = current_time_stamp,
                                               status = (if points = [] then EMPTY else NORMAL)\<rparr>
                                        in Inr (mp1\<lparr>history_trajectory := optimal_trajectory,
                                                    has_history_trajectory := True,
                                                    published := published mp1 @
                                                      [optimal_trajectory]\<rparr>))))))))))))"

section \<open>The specification's formulas, and concrete inputs\<close>

text \<open>The Frenet-frame projection in the words of the specification: the longitudinal
  component is the dot product of the offset vector with the heading vector, added to the
  reference point's arc length; the lateral component is their cross product.\<close>

definition frenet_projection_spec :: "real \<Rightarrow> real \<Rightarrow> path_point \<Rightarrow> real \<times> real" where
  "frenet_projection_spec x y p =
     ((x - pp_x p) * cos (pp_theta p) + (y - pp_y p) * sin (pp_theta p) + pp_s p,
      (x - pp_x p) * sin (pp_theta p) - (y - pp_y p) * cos (pp_theta p))"

text \<open>A configuration with the given horizon, time step and maximal deceleration, and an
  origin point at the origin of the plane, heading along the x axis with the given
  velocity.\<close>

definition estop_cfg :: "real \<Rightarrow> real \<Rightarrow> real \<Rightarrow> planning_config" where
  "estop_cfg horizon step decel =
     \<lparr>loop_rate = 10, preserve_history_trajectory_point_num = 0, max_lookahead_time = horizon,
      delta_t = step, max_lon_acc = decel, max_lat_acc = 4, desired_velocity = 8,
      max_replan_lat_distance_threshold = 1 / 2, max_replan_lon_distance_threshold = 1 / 2\<rparr>"

definition moving_origin :: "real \<Rightarrow> trajectory_point" where
  "moving_origin v = default_trajectory_point\<lparr>vel := v\<rparr>"

text \<open>Two reference lines that project every point onto itself: a straight one, and
  one of curvature 1.\<close>

definition straight_line :: reference_line where
  "straight_line =
     \<lparr>XYToSL = (\<lambda>x y. Some \<lparr>sl_s = x, sl_l = y\<rparr>), Length = 100,
      IsOnLane = (\<lambda>sl. \<bar>sl_l sl\<bar> < 2), ReferencePointKappa = (\<lambda>s. 0)\<rparr>"

definition circle_line :: reference_line where
  "circle_line =
     \<lparr>XYToSL = (\<lambda>x y. Some \<lparr>sl_s = x, sl_l = y\<rparr>), Length = 100,
      IsOnLane = (\<lambda>sl. \<bar>sl_l sl\<bar> < 2), ReferencePointKappa = (\<lambda>s. 1)\<rparr>"

text \<open>The distance that \<open>GetKeyObstacle\<close> measures for an obstacle: from the origin point
  to the object's position, or to the centre of the traffic light's trigger volume.\<close>

definition planar_distance :: "trajectory_point \<Rightarrow> obstacle_source \<Rightarrow> real" where
  "planar_distance p src =
     (case src of
        DynamicObject obj \<Rightarrow>
          hypot (pp_x (path_point p) - obj_pos_x obj) (pp_y (path_point p) - obj_pos_y obj)
      | TrafficSignal info st \<Rightarrow>
          hypot (pp_x (path_point p) - tv_center_x info) (pp_y (path_point p) - tv_center_y info))"

text \<open>A street scene: the ego vehicle (id 1) at the origin, a car 5 m away, a car 60 m
  away, a car on a bridge 2 m higher; a red light, a green light and a light with no
  status.\<close>

definition object_at :: "int \<Rightarrow> real \<Rightarrow> real \<Rightarrow> real \<Rightarrow> object" where
  "object_at i x y z = \<lparr>obj_id = i, obj_pos_x = x, obj_pos_y = y, obj_pos_z = z\<rparr>"

definition street_objects :: "(int \<times> object) list" where
  "street_objects =
     [(1, object_at 1 0 0 0), (2, object_at 2 3 4 (1 / 2)), (3, object_at 3 60 0 0),
      (4, object_at 4 1 0 2)]"

definition street_lights_info :: "(int \<times> traffic_light_info) list" where
  "street_lights_info =
     [(7, \<lparr>tli_id = 7, tv_center_x = 10, tv_center_y = 0, tv_center_z = 0\<rparr>),
      (8, \<lparr>tli_id = 8, tv_center_x = 10, tv_center_y = 5, tv_center_z = 0\<rparr>),
      (9, \<lparr>tli_id = 9, tv_center_x = 0, tv_center_y = 5, tv_center_z = 0\<rparr>)]"

definition street_lights_status :: "(int \<times> traffic_light_status) list" where
  "street_lights_status =
     [(7, \<lparr>tls_id = 7, tls_state = RED\<rparr>), (8, \<lparr>tls_id = 8, tls_state = GREEN\<rparr>)]"

definition no_prediction :: "obstacle_source \<Rightarrow> real \<Rightarrow> real \<Rightarrow> trajectory_point list" where
  "no_prediction src horizon step = []"

text \<open>The index the specification describes for \<open>GetPositionMatchedIndex\<close>: the
  earliest index whose point is at the minimal distance, that is, the first point that no
  point of the trajectory is strictly nearer than.\<close>

definition earliest_nearest_index :: "real \<times> real \<Rightarrow> trajectory_point list \<Rightarrow> nat" where
  "earliest_nearest_index xy trajectory =
     length (takeWhile (\<lambda>p. \<exists>q \<in> set trajectory. dist_sqr xy q < dist_sqr xy p) trajectory)"

text \<open>A trajectory point at the given position, every other field zero.\<close>

definition point_at :: "real \<Rightarrow> real \<Rightarrow> trajectory_point" where
  "point_at px py =
     default_trajectory_point\<lparr>path_point := default_path_point\<lparr>pp_x := px, pp_y := py\<rparr>\<rparr>"

text \<open>The value of \<open>min_dist_sqr\<close> when the loop of \<open>GetPositionMatchedIndex\<close> reaches
  index \<open>j\<close>: the result of the scan over the first \<open>j\<close> points.\<close>

definition running_best :: "real \<times> real \<Rightarrow> trajectory_point list \<Rightarrow> nat \<Rightarrow> real" where
  "running_best xy trajectory j = fst (position_scan xy (take j trajectory) 0 (DBL_MAX, 0))"

text \<open>A trajectory whose points are ordered by relative time, as the planner writes
  them.\<close>

definition time_ordered :: "trajectory_point list \<Rightarrow> bool" where
  "time_ordered trajectory = sorted_wrt (\<lambda>p q. relative_time p \<le> relative_time q) trajectory"

text \<open>The quantities that \<open>GetStitchingTrajectory\<close> computes on its way, for a planner
  with a non-empty history: the time-matched index, the position-matched index, the
  forward index, and the pair \<open>(lon_diff, lat_diff)\<close> that the code obtains from
  \<open>GetLatAndLonDistFromRefPoint\<close>. (For an empty history, where the code never computes
  them, the indices are 0.)\<close>

definition time_matched_index :: "real \<Rightarrow> trajectory_point list \<Rightarrow> nat" where
  "time_matched_index relative history =
     (case GetTimeMatchIndex relative (1 / 100000) history of Inl e \<Rightarrow> 0 | Inr i \<Rightarrow> i)"

definition position_matched_index :: "kino_dynamic_state \<Rightarrow> trajectory_point list \<Rightarrow> nat" where
  "position_matched_index state history =
     (case GetPositionMatchedIndex (ks_x state, ks_y state) history of Inl e \<Rightarrow> 0 | Inr i \<Rightarrow> i)"

definition stitching_lon_lat_diff :: "motion_planner \<Rightarrow> real \<Rightarrow> real \<times> real" where
  "stitching_lon_lat_diff mp current_time_stamp =
     (let state = vehicle_state mp;
          history = trajectory_points (history_trajectory mp);
          relative = current_time_stamp - stamp (history_trajectory mp);
          time_matched_tp = history ! time_matched_index relative history;
          position_matched_tp = history ! position_matched_index state history;
          sd = GetLatAndLonDistFromRefPoint (ks_x state) (ks_y state) (path_point position_matched_tp)
      in (pp_s (path_point time_matched_tp) - fst sd, snd sd))"

text \<open>The tests of \<open>GetStitchingTrajectory\<close> that lead to the reinit branch, with the
  deviations as the code computes them.\<close>

definition takes_reinit_branch :: "planning_config \<Rightarrow> motion_planner \<Rightarrow> real \<Rightarrow> bool" where
  "takes_reinit_branch cfg mp current_time_stamp =
     (let history = trajectory_points (history_trajectory mp);
          relative = current_time_stamp - stamp (history_trajectory mp);
          diff = stitching_lon_lat_diff mp current_time_stamp
      in \<not> has_history_trajectory mp
         \<or> history = []
         \<or> (time_matched_index relative history = 0 \<and> relative < relative_time (hd history))
         \<or> time_matched_index relative history = length history - 1
         \<or> \<bar>snd diff\<bar> > max_replan_lat_distance_threshold cfg
         \<or> \<bar>fst diff\<bar> > max_replan_lon_distance_threshold cfg)"

text \<open>The deviations in the words of the specification: the longitudinal deviation is the
  time-matched point's arc length minus the projected arc length of the vehicle position in
  the frame of the position-matched point, and the lateral deviation is the signed
  perpendicular offset of the vehicle position from that point, both with the projection
  \<open>frenet_projection_spec\<close> that the specification describes.\<close>

definition spec_lon_lat_deviation :: "motion_planner \<Rightarrow> real \<Rightarrow> real \<times> real" where
  "spec_lon_lat_deviation mp current_time_stamp =
     (let state = vehicle_state mp;
          history = trajectory_points (history_trajectory mp);
          relative = current_time_stamp - stamp (history_trajectory mp);
          time_matched_tp = history ! time_matched_index relative history;
          position_matched_tp = history ! position_matched_index state history;
          sd = frenet_projection_spec (ks_x state) (ks_y state) (path_point position_matched_tp)
      in (pp_s (path_point time_matched_tp) - fst sd, snd sd))"

text \<open>Whether, for the vehicle position and the position-matched point of the history, the
  longitudinal distance that \<open>GetLatAndLonDistFromRefPoint\<close> returns is the one of the
  specification's projection. This is so when \<open>sin theta + dy = dy * sin theta\<close> for the
  point's heading \<open>theta\<close> and the offset \<open>dy\<close> of the vehicle in y, for instance on a
  path along the x axis with the vehicle on it.\<close>

definition longitudinal_agrees :: "motion_planner \<Rightarrow> bool" where
  "longitudinal_agrees mp =
     (let state = vehicle_state mp;
          history = trajectory_points (history_trajectory mp);
          point = path_point (history ! position_matched_index state history)
      in fst (GetLatAndLonDistFromRefPoint (ks_x state) (ks_y state) point)
           = fst (frenet_projection_spec (ks_x state) (ks_y state) point))"

text \<open>The slice that the normal path copies out of the history, before it is re-based:
  its first index and the index of its last point.\<close>

definition stitching_first_index :: "motion_planner \<Rightarrow> real \<Rightarrow> 64 word \<Rightarrow> nat" where
  "stitching_first_index mp current_time_stamp preserve_points_num =
     (let history = trajectory_points (history_trajectory mp);
          relative = current_time_stamp - stamp (history_trajectory mp)
      in slice_start_index
           (min (position_matched_index (vehicle_state mp) history)
                (time_matched_index relative history))
           preserve_points_num)"

definition stitching_forward_index :: "motion_planner \<Rightarrow> real \<Rightarrow> real \<Rightarrow> nat" where
  "stitching_forward_index mp current_time_stamp planning_cycle_time =
     (let history = trajectory_points (history_trajectory mp);
          relative = current_time_stamp - stamp (history_trajectory mp)
      in time_matched_index (relative + planning_cycle_time) history)"

text \<open>A history along the x axis: point \<open>k\<close> is at \<open>x = k\<close>, with arc length \<open>k\<close> and
  relative time \<open>k\<close>; the history was stamped at time 100. The vehicle stands on the
  point of index 3.\<close>

definition hist_point :: "real \<Rightarrow> trajectory_point" where
  "hist_point k =
     default_trajectory_point\<lparr>
       path_point := default_path_point\<lparr>pp_x := k, pp_s := k\<rparr>,
       relative_time := k\<rparr>"

definition axis_history :: trajectory where
  "axis_history =
     \<lparr>trajectory_points = [hist_point 0, hist_point 1, hist_point 2, hist_point 3,
                           hist_point 4, hist_point 5],
      stamp = 100, status = NORMAL\<rparr>"

definition axis_state :: kino_dynamic_state where
  "axis_state = \<lparr>ks_x = 3, ks_y = 0, ks_z = 0, ks_theta = 0, ks_kappa = 0, ks_v = 1, ks_a = 0\<rparr>"

definition axis_planner :: motion_planner where
  "axis_planner =
     \<lparr>ego_vehicle_id = 1, objects_map = street_objects,
      traffic_light_status_list = street_lights_status,
      traffic_lights_info_list = street_lights_info,
      ego_object = object_at 1 0 0 0, vehicle_state = axis_state,
      has_history_trajectory = True, history_trajectory = axis_history, published = []\<rparr>"

text \<open>The same planner with the vehicle at another position; and a planner with the
  vehicle on the point of index 2 of a history whose relative times 5, 1, 4, 6 are not
  ordered.\<close>

definition axis_planner_at :: "real \<Rightarrow> real \<Rightarrow> motion_planner" where
  "axis_planner_at x y = axis_planner\<lparr>vehicle_state := axis_state\<lparr>ks_x := x, ks_y := y\<rparr>\<rparr>"

definition shuffled_history :: trajectory where
  "shuffled_history =
     \<lparr>trajectory_points = [(hist_point 0)\<lparr>relative_time := 5\<rparr>, (hist_point 1)\<lparr>relative_time := 1\<rparr>,
                           (hist_point 2)\<lparr>relative_time := 4\<rparr>, (hist_point 3)\<lparr>relative_time := 6\<rparr>],
      stamp = 100, status = NORMAL\<rparr>"

definition shuffled_planner :: motion_planner where
  "shuffled_planner = (axis_planner_at 2 0)\<lparr>history_trajectory := shuffled_history\<rparr>"

text \<open>A motion model that moves the vehicle along the x axis at its velocity.\<close>

definition coast :: "kino_dynamic_state \<Rightarrow> real \<Rightarrow> kino_dynamic_state" where
  "coast state t = state\<lparr>ks_x := ks_x state + ks_v state * t\<rparr>"

text \<open>Two environments of one cycle at time 103: one whose reference generator has no
  reference lines, and one that has a reference line but whose trajectory planner
  fails.\<close>

definition quiet_env :: collaborators where
  "quiet_env =
     \<lparr>env_now = 103,
      env_VehicleStateUpdate = (\<lambda>ego. axis_state),
      env_GetReferenceLines = None,
      env_Process = (\<lambda>obstacles origin targets. None),
      env_PredictTrajectory = no_prediction,
      env_GetNextStateAfterTime = coast\<rparr>"

definition failing_planner_env :: collaborators where
  "failing_planner_env = quiet_env\<lparr>env_GetReferenceLines := Some [straight_line]\<rparr>"

section \<open>Properties of GenerateEmergencyStopTrajectory\<close>

lemma upt_from_1_upto_3: "[Suc 0 ..< 3] = [1, 2]"
  by (simp add: upt_rec)

lemma upt_from_1_upto_4: "[Suc 0 ..< 4] = [1, 2, 3]"
  by (simp add: upt_rec)

lemma upt_from_1_upto_5: "[Suc 0 ..< 5] = [1, 2, 3, 4]"
  by (simp add: upt_rec)

lemma replicate_3: "replicate 3 x = [x, x, x]"
  by (simp add: numeral_eq_Suc)

lemma replicate_4: "replicate 4 x = [x, x, x, x]"
  by (simp add: numeral_eq_Suc)

lemma replicate_5: "replicate 5 x = [x, x, x, x, x]"
  by (simp add: numeral_eq_Suc)

text \<open>Every iteration appends one point.\<close>

lemma estop_fold_length:
  "length (out_points (foldl (estop_iteration g d st p0) l xs)) = length (out_points l) + length xs"
  by (induction xs arbitrary: l) (simp_all add: estop_iteration_def Let_def)

text \<open>The number of points of the result: \<open>n\<close> default points from \<^verbatim>\<open>resize\<close>, the
  first \<^verbatim>\<open>push_back\<close>, and one \<^verbatim>\<open>push_back\<close> for each \<open>i\<close> from 1 to \<open>n - 1\<close>.\<close>

lemma GenerateEmergencyStopTrajectory_length:
  assumes "GenerateEmergencyStopTrajectory cfg p0 = Inr ps"
      and "double_to_int (max_lookahead_time cfg / delta_t cfg) = Inr n"
  shows "length ps = nat n + 1 + (nat n - 1)"
  using assms
  by (auto simp: GenerateEmergencyStopTrajectory_def Let_def estop_fold_length split: if_splits)

text \<open>
  C1 (velocity non-increasing down to zero and never negative, arc length
  non-decreasing). The code does not do this. With the deceleration 3, the time step 1,
  the horizon 5 and the initial velocity 9, the velocities after the five default points
  are 9, 6, 12, 12, 12: the second iteration subtracts the negative acceleration of the
  first from the initial velocity. With the deceleration 2, the time step 1/2, the horizon
  2 and the initial velocity 1/2, the velocities are 1/2, -1/2, 1/2, 1/2 and the arc
  lengths 0, 1/2, 1/4, 1/2: the velocity is negative and the arc length decreases.
\<close>

theorem GenerateEmergencyStopTrajectory_velocity_profile:
  "map_sum id (map vel) (GenerateEmergencyStopTrajectory (estop_cfg 5 1 3) (moving_origin 9))
     = Inr [0, 0, 0, 0, 0, 9, 6, 12, 12, 12]
   \<and> map_sum id (map vel)
        (GenerateEmergencyStopTrajectory (estop_cfg 2 (1 / 2) 2) (moving_origin (1 / 2)))
     = Inr [0, 0, 0, 0, 1 / 2, - (1 / 2), 1 / 2, 1 / 2]
   \<and> map_sum id (map (\<lambda>p. pp_s (path_point p)))
        (GenerateEmergencyStopTrajectory (estop_cfg 2 (1 / 2) 2) (moving_origin (1 / 2)))
     = Inr [0, 0, 0, 0, 0, 1 / 2, 1 / 4, 1 / 2]"
  by (simp add: GenerateEmergencyStopTrajectory_def estop_cfg_def moving_origin_def double_to_int_def
        upt_from_1_upto_4 upt_from_1_upto_5 estop_iteration_def replicate_4 replicate_5
        default_trajectory_point_def default_path_point_def Let_def)

text \<open>
  C3 (exactly \<open>floor (max_horizon / time_step)\<close> points, the first of them the origin
  with relative time 0 and acceleration \<open>- max_deceleration\<close>). The code does not do
  this. With the horizon 3 and the time step 1 the result has 6 points, not 3: its first
  point is a default point, and the origin with relative time 0 and acceleration -2 is
  the point at index 3.
\<close>

theorem GenerateEmergencyStopTrajectory_point_count:
  "map_sum id length (GenerateEmergencyStopTrajectory (estop_cfg 3 1 2) (moving_origin 4)) = Inr 6
   \<and> nat \<lfloor>3 / 1 :: real\<rfloor> = 3
   \<and> map_sum id hd (GenerateEmergencyStopTrajectory (estop_cfg 3 1 2) (moving_origin 4))
       = Inr default_trajectory_point
   \<and> map_sum id (\<lambda>ps. ps ! 3) (GenerateEmergencyStopTrajectory (estop_cfg 3 1 2) (moving_origin 4))
       = Inr ((moving_origin 4)\<lparr>relative_time := 0, acc := - 2\<rparr>)
   \<and> default_trajectory_point \<noteq> (moving_origin 4)\<lparr>relative_time := 0, acc := - 2\<rparr>"
  by (simp add: GenerateEmergencyStopTrajectory_def estop_cfg_def moving_origin_def double_to_int_def
        upt_from_1_upto_3 estop_iteration_def replicate_3
        default_trajectory_point_def default_path_point_def Let_def)

section \<open>Properties of GetLatAndLonDistFromRefPoint\<close>

text \<open>What the code computes, for every input: the lateral component is the cross
  product; the longitudinal one adds \<open>sin theta\<close> and the y offset instead of
  multiplying them.\<close>

lemma GetLatAndLonDistFromRefPoint_eq:
  "GetLatAndLonDistFromRefPoint x y p =
     ((x - pp_x p) * cos (pp_theta p) + sin (pp_theta p) + (y - pp_y p) + pp_s p,
      (x - pp_x p) * sin (pp_theta p) - (y - pp_y p) * cos (pp_theta p))"
  by (simp add: GetLatAndLonDistFromRefPoint_def)

lemma GetLatAndLonDistFromRefPoint_lateral:
  "snd (GetLatAndLonDistFromRefPoint x y p) = snd (frenet_projection_spec x y p)"
  by (simp add: GetLatAndLonDistFromRefPoint_def frenet_projection_spec_def)

text \<open>
  C5 (the pair returned is the standard Frenet-frame projection). The code does not do
  this for the longitudinal component. For the query point (0, 1) and the reference point
  at the origin with heading 0 and arc length 0, the code returns the longitudinal value 1
  where the projection is 0; the lateral value is -1 in both.
\<close>

theorem GetLatAndLonDistFromRefPoint_longitudinal_defect:
  "GetLatAndLonDistFromRefPoint 0 1 default_path_point = (1, - 1)
   \<and> frenet_projection_spec 0 1 default_path_point = (0, - 1)"
  by (simp add: GetLatAndLonDistFromRefPoint_def frenet_projection_spec_def default_path_point_def)

section \<open>Properties of GetPlanningTargets\<close>

lemma set_map_filter_iff: "y \<in> set (List.map_filter f xs) \<longleftrightarrow> (\<exists>x \<in> set xs. f x = Some y)"
  by (induction xs) (auto split: option.splits)

lemma planning_target_of_desired_vel:
  assumes "planning_target_of cfg init_point ref_line = Some t"
  shows "\<exists>sl. XYToSL ref_line (pp_x (path_point init_point)) (pp_y (path_point init_point)) = Some sl
           \<and> ref_lane t = ref_line
           \<and> desired_vel t =
               min (desired_velocity cfg)
                   (max_lat_acc cfg / (\<bar>ReferencePointKappa ref_line (sl_s sl)\<bar> + 1 / 10000))"
  using assms by (auto simp: planning_target_of_def Let_def split: option.splits)

text \<open>
  C9. Every planning target returned by \<open>GetPlanningTargets\<close> was built from one of the
  reference lines, at the point \<open>sl\<close> where that line projects the origin, and its
  desired velocity is the minimum of the configured cap and
  \<open>max_lat_acc / (|kappa (sl_s sl)| + 0.0001)\<close>; so it exceeds neither.
\<close>

theorem GetPlanningTargets_desired_vel:
  "\<forall>t \<in> set (GetPlanningTargets cfg ref_lines init_point).
     \<exists>ref_line \<in> set ref_lines. \<exists>sl.
        XYToSL ref_line (pp_x (path_point init_point)) (pp_y (path_point init_point)) = Some sl
      \<and> ref_lane t = ref_line
      \<and> desired_vel t =
          min (desired_velocity cfg)
              (max_lat_acc cfg / (\<bar>ReferencePointKappa ref_line (sl_s sl)\<bar> + 1 / 10000))
      \<and> desired_vel t \<le> desired_velocity cfg
      \<and> desired_vel t \<le> max_lat_acc cfg / (\<bar>ReferencePointKappa ref_line (sl_s sl)\<bar> + 1 / 10000)"
proof
  fix t
  assume "t \<in> set (GetPlanningTargets cfg ref_lines init_point)"
  then obtain ref_line where rl: "ref_line \<in> set ref_lines"
      and t: "planning_target_of cfg init_point ref_line = Some t"
    by (auto simp: GetPlanningTargets_def set_map_filter_iff)
  from planning_target_of_desired_vel [OF t] obtain sl where
      sl: "XYToSL ref_line (pp_x (path_point init_point)) (pp_y (path_point init_point)) = Some sl"
      and lane: "ref_lane t = ref_line"
      and dv: "desired_vel t =
               min (desired_velocity cfg)
                   (max_lat_acc cfg / (\<bar>ReferencePointKappa ref_line (sl_s sl)\<bar> + 1 / 10000))"
    by blast
  from dv have "desired_vel t \<le> desired_velocity cfg"
    and "desired_vel t \<le> max_lat_acc cfg / (\<bar>ReferencePointKappa ref_line (sl_s sl)\<bar> + 1 / 10000)"
    by simp_all
  with rl sl lane dv show "\<exists>ref_line \<in> set ref_lines. \<exists>sl.
        XYToSL ref_line (pp_x (path_point init_point)) (pp_y (path_point init_point)) = Some sl
      \<and> ref_lane t = ref_line
      \<and> desired_vel t =
          min (desired_velocity cfg)
              (max_lat_acc cfg / (\<bar>ReferencePointKappa ref_line (sl_s sl)\<bar> + 1 / 10000))
      \<and> desired_vel t \<le> desired_velocity cfg
      \<and> desired_vel t \<le> max_lat_acc cfg / (\<bar>ReferencePointKappa ref_line (sl_s sl)\<bar> + 1 / 10000)"
    by blast
qed

text \<open>With the cap 8 and the lateral acceleration 4, the straight line gets the cap and
  the line of curvature 1 gets 4 / 1.0001.\<close>

theorem GetPlanningTargets_desired_vel_witness:
  "map desired_vel
       (GetPlanningTargets (estop_cfg 5 1 3) [straight_line, circle_line] (moving_origin 9))
     = [8, 40000 / 10001]
   \<and> (\<exists>t. t \<in> set (GetPlanningTargets (estop_cfg 5 1 3) [straight_line, circle_line]
                      (moving_origin 9))
         \<and> desired_vel t \<le> 8)"
proof -
  have "GetPlanningTargets (estop_cfg 5 1 3) [straight_line, circle_line] (moving_origin 9) \<noteq> []"
    by (simp add: GetPlanningTargets_def planning_target_of_def straight_line_def Let_def)
  then obtain t where
    t: "t \<in> set (GetPlanningTargets (estop_cfg 5 1 3) [straight_line, circle_line] (moving_origin 9))"
    by (meson last_in_set)
  from GetPlanningTargets_desired_vel
         [of "estop_cfg 5 1 3" "[straight_line, circle_line]" "moving_origin 9"] t
  have "desired_vel t \<le> desired_velocity (estop_cfg 5 1 3)"
    by blast
  then have "desired_vel t \<le> 8"
    by (simp add: estop_cfg_def)
  moreover have "map desired_vel
       (GetPlanningTargets (estop_cfg 5 1 3) [straight_line, circle_line] (moving_origin 9))
     = [8, 40000 / 10001]"
    by (simp add: GetPlanningTargets_def planning_target_of_def straight_line_def circle_line_def
          estop_cfg_def moving_origin_def default_trajectory_point_def default_path_point_def Let_def)
  ultimately show ?thesis
    using t by blast
qed

section \<open>Properties of GetKeyObstacle\<close>

lemma hypot_less_iff: "0 < r \<Longrightarrow> hypot a b < r \<longleftrightarrow> a * a + b * b < r * r"
proof -
  assume r: "0 < r"
  have "sqrt (a * a + b * b) < r \<longleftrightarrow> sqrt (a * a + b * b) < sqrt (r * r)"
    using r by simp
  also have "\<dots> \<longleftrightarrow> a * a + b * b < r * r"
    by (rule real_sqrt_less_iff)
  finally show ?thesis by (simp add: hypot_def)
qed

lemma object_selected_iff:
  "object_selected tp ego_obj ego_id (k, obj) \<longleftrightarrow>
     k \<noteq> ego_id
   \<and> hypot (pp_x (path_point tp) - obj_pos_x obj) (pp_y (path_point tp) - obj_pos_y obj) < 50
   \<and> \<bar>obj_pos_z obj - obj_pos_z ego_obj\<bar> < 1.5"
  by (simp add: object_selected_def Let_def)

lemma light_selected_distance:
  assumes "light_selected tp ego_obj sl (k, info) = Some st"
  shows "hypot (pp_x (path_point tp) - tv_center_x info) (pp_y (path_point tp) - tv_center_y info) < 50"
  using assms by (auto simp: light_selected_def Let_def split: option.splits if_splits)

lemma GetKeyObstacle_sources:
  assumes "map_of objects ego_id = Some ego_obj"
  shows "GetKeyObstacle P cfg objects sl il tp ego_id =
           Inr (map (\<lambda>entry. make_obstacle P cfg (DynamicObject (snd entry)))
                 (filter (object_selected tp ego_obj ego_id) objects)
               @ List.map_filter
                   (\<lambda>light_info.
                      map_option
                        (\<lambda>light_status. make_obstacle P cfg (TrafficSignal (snd light_info) light_status))
                        (light_selected tp ego_obj sl light_info))
                   il)"
  using assms by (simp add: GetKeyObstacle_def)

lemma obstacle_cases:
  assumes ego: "map_of objects ego_id = Some ego_obj"
      and res: "GetKeyObstacle P cfg objects sl il tp ego_id = Inr obstacles"
      and ob: "ob \<in> set obstacles"
  shows "(\<exists>k obj. (k, obj) \<in> set objects \<and> object_selected tp ego_obj ego_id (k, obj)
             \<and> obs_source ob = DynamicObject obj)
       \<or> (\<exists>k info st. (k, info) \<in> set il \<and> light_selected tp ego_obj sl (k, info) = Some st
             \<and> obs_source ob = TrafficSignal info st)"
proof -
  from res ob have "ob \<in> (\<lambda>entry. make_obstacle P cfg (DynamicObject (snd entry)))
                           ` set (filter (object_selected tp ego_obj ego_id) objects)
      \<or> (\<exists>li \<in> set il. map_option
                        (\<lambda>light_status. make_obstacle P cfg (TrafficSignal (snd li) light_status))
                        (light_selected tp ego_obj sl li) = Some ob)"
    by (auto simp: GetKeyObstacle_sources [OF ego] set_map_filter_iff)
  then show ?thesis
  proof
    assume "ob \<in> (\<lambda>entry. make_obstacle P cfg (DynamicObject (snd entry)))
                           ` set (filter (object_selected tp ego_obj ego_id) objects)"
    then obtain e where "e \<in> set objects" "object_selected tp ego_obj ego_id e"
        "ob = make_obstacle P cfg (DynamicObject (snd e))"
      by auto
    then have "(fst e, snd e) \<in> set objects \<and> object_selected tp ego_obj ego_id (fst e, snd e)
             \<and> obs_source ob = DynamicObject (snd e)"
      by (simp add: make_obstacle_def)
    then show ?thesis by blast
  next
    assume "\<exists>li \<in> set il. map_option
                        (\<lambda>light_status. make_obstacle P cfg (TrafficSignal (snd li) light_status))
                        (light_selected tp ego_obj sl li) = Some ob"
    then obtain li st where "li \<in> set il" "light_selected tp ego_obj sl li = Some st"
        "ob = make_obstacle P cfg (TrafficSignal (snd li) st)"
      by auto
    then have "(fst li, snd li) \<in> set il \<and> light_selected tp ego_obj sl (fst li, snd li) = Some st
             \<and> obs_source ob = TrafficSignal (snd li) st"
      by (simp add: make_obstacle_def)
    then show ?thesis by blast
  qed
qed

text \<open>The subscriber stores every object under its own id. Under that invariant no
  obstacle built from an object carries the ego's id.\<close>

lemma GetKeyObstacle_no_ego_id:
  assumes "map_of objects ego_id = Some ego_obj"
      and "GetKeyObstacle P cfg objects sl il tp ego_id = Inr obstacles"
      and "\<forall>(k, obj) \<in> set objects. obj_id obj = k"
      and "ob \<in> set obstacles" and "obs_source ob = DynamicObject obj"
  shows "obj_id obj \<noteq> ego_id"
  using obstacle_cases [OF assms(1,2,4)] assms(3,5)
  by (auto simp: object_selected_iff)

text \<open>
  C8. When the objects map has an entry for the ego id, \<open>GetKeyObstacle\<close> returns a
  list of obstacles such that: every obstacle built from an object was built from an
  entry whose key is not the ego id; every obstacle is at a planar distance below 50 from
  the origin point; and an entry with another key than the ego's has an obstacle in the
  list exactly when its planar distance is below 50 and its height differs from the ego
  entry's by less than 1.5.
\<close>

theorem GetKeyObstacle_selection:
  assumes ego: "map_of objects ego_id = Some ego_obj"
  shows "\<exists>obstacles. GetKeyObstacle P cfg objects sl il tp ego_id = Inr obstacles
     \<and> (\<forall>ob \<in> set obstacles. \<forall>obj. obs_source ob = DynamicObject obj \<longrightarrow>
           (\<exists>k. (k, obj) \<in> set objects \<and> k \<noteq> ego_id))
     \<and> (\<forall>ob \<in> set obstacles. planar_distance tp (obs_source ob) < 50)
     \<and> (\<forall>(k, obj) \<in> set objects. k \<noteq> ego_id \<longrightarrow>
          ((\<exists>ob \<in> set obstacles. obs_source ob = DynamicObject obj) \<longleftrightarrow>
             hypot (pp_x (path_point tp) - obj_pos_x obj) (pp_y (path_point tp) - obj_pos_y obj) < 50
           \<and> \<bar>obj_pos_z obj - obj_pos_z ego_obj\<bar> < 1.5))"
proof -
  obtain obstacles where res: "GetKeyObstacle P cfg objects sl il tp ego_id = Inr obstacles"
    using ego by (simp add: GetKeyObstacle_sources)
  note cases = obstacle_cases [OF ego res]
  have not_ego: "\<forall>ob \<in> set obstacles. \<forall>obj. obs_source ob = DynamicObject obj \<longrightarrow>
           (\<exists>k. (k, obj) \<in> set objects \<and> k \<noteq> ego_id)"
    using cases by (fastforce simp: object_selected_iff)
  have near: "\<forall>ob \<in> set obstacles. planar_distance tp (obs_source ob) < 50"
  proof
    fix ob assume "ob \<in> set obstacles"
    from cases [OF this] show "planar_distance tp (obs_source ob) < 50"
      by (auto simp: planar_distance_def object_selected_iff dest: light_selected_distance)
  qed
  have incl: "\<forall>(k, obj) \<in> set objects. k \<noteq> ego_id \<longrightarrow>
          ((\<exists>ob \<in> set obstacles. obs_source ob = DynamicObject obj) \<longleftrightarrow>
             hypot (pp_x (path_point tp) - obj_pos_x obj) (pp_y (path_point tp) - obj_pos_y obj) < 50
           \<and> \<bar>obj_pos_z obj - obj_pos_z ego_obj\<bar> < 1.5)"
  proof (clarify, rule iffI)
    fix k obj
    assume "(k, obj) \<in> set objects" "k \<noteq> ego_id"
      and "\<exists>ob \<in> set obstacles. obs_source ob = DynamicObject obj"
    then obtain ob where "ob \<in> set obstacles" "obs_source ob = DynamicObject obj" by blast
    with cases [of ob] show "hypot (pp_x (path_point tp) - obj_pos_x obj) (pp_y (path_point tp) - obj_pos_y obj) < 50
           \<and> \<bar>obj_pos_z obj - obj_pos_z ego_obj\<bar> < 1.5"
      by (auto simp: object_selected_iff)
  next
    fix k obj
    assume in_objs: "(k, obj) \<in> set objects" and k: "k \<noteq> ego_id"
      and gate: "hypot (pp_x (path_point tp) - obj_pos_x obj) (pp_y (path_point tp) - obj_pos_y obj) < 50
           \<and> \<bar>obj_pos_z obj - obj_pos_z ego_obj\<bar> < 1.5"
    then have "object_selected tp ego_obj ego_id (k, obj)"
      by (simp add: object_selected_iff)
    with in_objs have "make_obstacle P cfg (DynamicObject obj) \<in> set obstacles"
      using res ego by (force simp: GetKeyObstacle_sources)
    then show "\<exists>ob \<in> set obstacles. obs_source ob = DynamicObject obj"
      by (force simp: make_obstacle_def)
  qed
  from res not_ego near incl show ?thesis by blast
qed

theorem GetKeyObstacle_selection_witness:
  "map_of street_objects 1 = Some (object_at 1 0 0 0)
   \<and> map_sum id (map obs_source)
        (GetKeyObstacle no_prediction (estop_cfg 5 1 3) street_objects street_lights_status
           street_lights_info (moving_origin 9) 1)
       = Inr [DynamicObject (object_at 2 3 4 (1 / 2)),
              TrafficSignal \<lparr>tli_id = 7, tv_center_x = 10, tv_center_y = 0, tv_center_z = 0\<rparr>
                \<lparr>tls_id = 7, tls_state = RED\<rparr>]
   \<and> (\<exists>obstacles.
         GetKeyObstacle no_prediction (estop_cfg 5 1 3) street_objects street_lights_status
           street_lights_info (moving_origin 9) 1 = Inr obstacles
       \<and> planar_distance (moving_origin 9) (obs_source (hd obstacles)) < 50)"
proof -
  have ego: "map_of street_objects 1 = Some (object_at 1 0 0 0)"
    by (simp add: street_objects_def)
  have sources: "map_sum id (map obs_source)
        (GetKeyObstacle no_prediction (estop_cfg 5 1 3) street_objects street_lights_status
           street_lights_info (moving_origin 9) 1)
       = Inr [DynamicObject (object_at 2 3 4 (1 / 2)),
              TrafficSignal \<lparr>tli_id = 7, tv_center_x = 10, tv_center_y = 0, tv_center_z = 0\<rparr>
                \<lparr>tls_id = 7, tls_state = RED\<rparr>]"
    by (simp add: GetKeyObstacle_def street_objects_def street_lights_status_def
          street_lights_info_def object_selected_def light_selected_def hypot_less_iff
          make_obstacle_def object_at_def moving_origin_def default_trajectory_point_def
          default_path_point_def Let_def)
  from GetKeyObstacle_selection [OF ego, of no_prediction "estop_cfg 5 1 3" street_lights_status street_lights_info
         "moving_origin 9"]
  obtain obstacles where
    res: "GetKeyObstacle no_prediction (estop_cfg 5 1 3) street_objects street_lights_status
           street_lights_info (moving_origin 9) 1 = Inr obstacles"
    and near: "\<forall>ob \<in> set obstacles. planar_distance (moving_origin 9) (obs_source ob) < 50"
    by blast
  from sources res have "obstacles \<noteq> []"
    by auto
  with near have "planar_distance (moving_origin 9) (obs_source (hd obstacles)) < 50"
    by simp
  with ego sources res show ?thesis
    by blast
qed

section \<open>Properties of GetPositionMatchedIndex\<close>

lemma kEps_pos: "0 < kEps"
  by (simp add: kEps_def)

lemma DBL_MAX_ge: "1 \<le> DBL_MAX"
proof -
  have "(1::real) \<le> 1 * 1" by simp
  also have "\<dots> \<le> (2 - 1 / 2 ^ 52) * 2 ^ 1023"
    by (rule mult_mono) simp_all
  finally show ?thesis by (simp add: DBL_MAX_def)
qed

text \<open>What the scan returns: either it never updated, and then every point is at least
  \<open>kEps\<close> beyond the initial bound; or it returns the index of its last update, the
  squared distance there, and every later point is at least \<open>kEps\<close> farther.\<close>

lemma position_scan_result:
  assumes "position_scan xy ps i (m, mi) = (m', mi')"
  shows "(mi' = mi \<and> m' = m \<and> (\<forall>p \<in> set ps. m + kEps \<le> dist_sqr xy p))
       \<or> (i \<le> mi' \<and> mi' < i + length ps \<and> m' = dist_sqr xy (ps ! (mi' - i))
            \<and> (\<forall>j. mi' - i < j \<and> j < length ps \<longrightarrow> m' + kEps \<le> dist_sqr xy (ps ! j)))"
  using assms
proof (induction ps arbitrary: i m mi)
  case Nil
  then show ?case by simp
next
  case (Cons p ps)
  show ?case
  proof (cases "dist_sqr xy p < m + kEps")
    case True
    with Cons.prems have rec: "position_scan xy ps (Suc i) (dist_sqr xy p, i) = (m', mi')"
      by simp
    from Cons.IH [OF rec] show ?thesis
    proof
      assume a: "mi' = i \<and> m' = dist_sqr xy p \<and> (\<forall>q \<in> set ps. dist_sqr xy p + kEps \<le> dist_sqr xy q)"
      have "\<forall>j. mi' - i < j \<and> j < length (p # ps) \<longrightarrow> m' + kEps \<le> dist_sqr xy ((p # ps) ! j)"
      proof (intro allI impI)
        fix j assume j: "mi' - i < j \<and> j < length (p # ps)"
        then obtain j' where j': "j = Suc j'" "j' < length ps"
          by (cases j) auto
        then have "ps ! j' \<in> set ps" by simp
        with a j' show "m' + kEps \<le> dist_sqr xy ((p # ps) ! j)" by simp
      qed
      with a show ?thesis by simp
    next
      assume b: "Suc i \<le> mi' \<and> mi' < Suc i + length ps \<and> m' = dist_sqr xy (ps ! (mi' - Suc i))
            \<and> (\<forall>j. mi' - Suc i < j \<and> j < length ps \<longrightarrow> m' + kEps \<le> dist_sqr xy (ps ! j))"
      then have idx: "mi' - i = Suc (mi' - Suc i)" by arith
      have "\<forall>j. mi' - i < j \<and> j < length (p # ps) \<longrightarrow> m' + kEps \<le> dist_sqr xy ((p # ps) ! j)"
      proof (intro allI impI)
        fix j assume j: "mi' - i < j \<and> j < length (p # ps)"
        then obtain j' where j': "j = Suc j'" "j' < length ps" "mi' - Suc i < j'"
          using idx by (cases j) auto
        with b have "m' + kEps \<le> dist_sqr xy (ps ! j')" by blast
        with j' show "m' + kEps \<le> dist_sqr xy ((p # ps) ! j)" by simp
      qed
      with b idx show ?thesis by simp
    qed
  next
    case False
    with Cons.prems have rec: "position_scan xy ps (Suc i) (m, mi) = (m', mi')"
      by simp
    from Cons.IH [OF rec] show ?thesis
    proof
      assume a: "mi' = mi \<and> m' = m \<and> (\<forall>q \<in> set ps. m + kEps \<le> dist_sqr xy q)"
      with False show ?thesis by simp
    next
      assume b: "Suc i \<le> mi' \<and> mi' < Suc i + length ps \<and> m' = dist_sqr xy (ps ! (mi' - Suc i))
            \<and> (\<forall>j. mi' - Suc i < j \<and> j < length ps \<longrightarrow> m' + kEps \<le> dist_sqr xy (ps ! j))"
      then have idx: "mi' - i = Suc (mi' - Suc i)" by arith
      have "\<forall>j. mi' - i < j \<and> j < length (p # ps) \<longrightarrow> m' + kEps \<le> dist_sqr xy ((p # ps) ! j)"
      proof (intro allI impI)
        fix j assume j: "mi' - i < j \<and> j < length (p # ps)"
        then obtain j' where j': "j = Suc j'" "j' < length ps" "mi' - Suc i < j'"
          using idx by (cases j) auto
        with b have "m' + kEps \<le> dist_sqr xy (ps ! j')" by blast
        with j' show "m' + kEps \<le> dist_sqr xy ((p # ps) ! j)" by simp
      qed
      with b idx show ?thesis by simp
    qed
  qed
qed

lemma position_scan_append:
  "position_scan xy (ps @ qs) i (m, mi) =
     position_scan xy qs (i + length ps) (position_scan xy ps i (m, mi))"
  by (induction ps arbitrary: i m mi) auto

lemma position_scan_best:
  "fst (position_scan xy ps i (m, mi)) \<in> insert m (dist_sqr xy ` set ps)"
  by (induction ps arbitrary: i m mi) auto

lemma position_scan_no_update:
  "\<forall>p \<in> set ps. m + kEps \<le> dist_sqr xy p \<Longrightarrow> position_scan xy ps i (m, mi) = (m, mi)"
  by (induction ps arbitrary: i) auto

text \<open>A point that is nearer than every other one by at least \<open>kEps\<close> is the one the
  scan returns.\<close>

lemma position_scan_separated:
  assumes k: "k < length ps"
      and sep: "\<forall>j < length ps. j \<noteq> k \<longrightarrow> dist_sqr xy (ps ! k) + kEps \<le> dist_sqr xy (ps ! j)"
      and fin: "dist_sqr xy (ps ! k) < DBL_MAX + kEps"
  shows "position_scan xy ps 0 (DBL_MAX, 0) = (dist_sqr xy (ps ! k), k)"
proof -
  define xs where "xs = take k ps"
  define ys where "ys = drop (Suc k) ps"
  have split: "ps = xs @ (ps ! k) # ys" and len: "length xs = k"
    using k by (simp_all add: xs_def ys_def id_take_nth_drop)
  obtain b bi where before: "position_scan xy xs 0 (DBL_MAX, 0) = (b, bi)"
    by (cases "position_scan xy xs 0 (DBL_MAX, 0)")
  have "b \<in> insert DBL_MAX (dist_sqr xy ` set xs)"
    using position_scan_best [of xy xs 0 DBL_MAX 0] before by simp
  moreover have "\<forall>q \<in> set xs. dist_sqr xy (ps ! k) + kEps \<le> dist_sqr xy q"
  proof
    fix q assume "q \<in> set xs"
    then obtain j where "j < k" "q = ps ! j"
      using len by (auto simp: in_set_conv_nth xs_def)
    with sep k show "dist_sqr xy (ps ! k) + kEps \<le> dist_sqr xy q" by simp
  qed
  ultimately have upd: "dist_sqr xy (ps ! k) < b + kEps"
    using fin kEps_pos by fastforce
  have after: "\<forall>q \<in> set ys. dist_sqr xy (ps ! k) + kEps \<le> dist_sqr xy q"
  proof
    fix q assume "q \<in> set ys"
    then obtain j where "j < length ys" "q = ys ! j"
      by (auto simp: in_set_conv_nth)
    then have "Suc k + j < length ps" "q = ps ! (Suc k + j)"
      using k by (simp_all add: ys_def)
    with sep show "dist_sqr xy (ps ! k) + kEps \<le> dist_sqr xy q" by simp
  qed
  have "position_scan xy ps 0 (DBL_MAX, 0)
          = position_scan xy ((ps ! k) # ys) k (b, bi)"
    using position_scan_append [of xy xs "(ps ! k) # ys" 0 DBL_MAX 0] split before len by simp
  also have "\<dots> = position_scan xy ys (Suc k) (dist_sqr xy (ps ! k), k)"
    using upd by simp
  also have "\<dots> = (dist_sqr xy (ps ! k), k)"
    using after by (rule position_scan_no_update)
  finally show ?thesis .
qed

lemma DBL_MAX_large: "10 ^ 6 < DBL_MAX"
  by (simp add: DBL_MAX_def)

text \<open>The scan in three parts: the points before index \<open>i\<close>, the point at \<open>i\<close>, the points
  after it.\<close>

lemma position_scan_split:
  assumes "i < length ps"
  shows "position_scan xy ps 0 (DBL_MAX, 0)
           = position_scan xy (ps ! i # drop (Suc i) ps) i (position_scan xy (take i ps) 0 (DBL_MAX, 0))"
proof -
  have "ps = take i ps @ ps ! i # drop (Suc i) ps"
    using assms by (simp add: id_take_nth_drop)
  then have "position_scan xy ps 0 (DBL_MAX, 0)
               = position_scan xy (take i ps @ ps ! i # drop (Suc i) ps) 0 (DBL_MAX, 0)"
    by simp
  also have "\<dots> = position_scan xy (ps ! i # drop (Suc i) ps) (0 + length (take i ps))
                      (position_scan xy (take i ps) 0 (DBL_MAX, 0))"
    by (rule position_scan_append)
  finally show ?thesis
    using assms by simp
qed

text \<open>The index that the scan returns is one at which the comparison succeeded.\<close>

lemma position_scan_updated_at_result:
  assumes scan: "position_scan xy ps 0 (DBL_MAX, 0) = (m', i)"
      and ne: "ps \<noteq> []"
      and first: "dist_sqr xy (hd ps) < DBL_MAX + kEps"
  shows "i < length ps \<and> dist_sqr xy (ps ! i) < running_best xy ps i + kEps"
proof -
  from ne first have "\<not> (\<forall>p \<in> set ps. DBL_MAX + kEps \<le> dist_sqr xy p)"
    by (cases ps) (auto simp: not_le intro!: bexI)
  with position_scan_result [OF scan] have valid: "i < length ps"
    by auto
  obtain b bi where before: "position_scan xy (take i ps) 0 (DBL_MAX, 0) = (b, bi)"
    by (cases "position_scan xy (take i ps) 0 (DBL_MAX, 0)")
  have b: "running_best xy ps i = b"
    using before by (simp add: running_best_def)
  have "dist_sqr xy (ps ! i) < b + kEps"
  proof (rule ccontr)
    assume no: "\<not> dist_sqr xy (ps ! i) < b + kEps"
    have "position_scan xy ps 0 (DBL_MAX, 0)
            = position_scan xy (ps ! i # drop (Suc i) ps) i (b, bi)"
      using position_scan_split [OF valid, of xy] before by simp
    also have "\<dots> = position_scan xy (drop (Suc i) ps) (Suc i) (b, bi)"
      using no by simp
    finally have rest: "position_scan xy (drop (Suc i) ps) (Suc i) (b, bi) = (m', i)"
      using scan by simp
    from position_scan_result [OF rest] have same: "i = bi" "m' = b"
      by auto
    from position_scan_result [OF before] same valid
    have "bi = 0 \<and> b = DBL_MAX"
      by auto
    with same have "i = 0" "b = DBL_MAX"
      by simp_all
    with no first ne show False
      by (simp add: hd_conv_nth)
  qed
  with valid b show ?thesis
    by simp
qed

text \<open>After the index that the scan returns, the running best is the distance found there.\<close>

lemma running_best_after_result:
  assumes scan: "position_scan xy ps 0 (DBL_MAX, 0) = (m', i)"
      and ne: "ps \<noteq> []"
      and first: "dist_sqr xy (hd ps) < DBL_MAX + kEps"
      and j: "i < j" "j < length ps"
  shows "running_best xy ps j = dist_sqr xy (ps ! i)"
proof -
  from ne first have "\<not> (\<forall>p \<in> set ps. DBL_MAX + kEps \<le> dist_sqr xy p)"
    by (cases ps) (auto simp: not_le intro!: bexI)
  with position_scan_result [OF scan]
  have later: "\<forall>k. i < k \<and> k < length ps \<longrightarrow> dist_sqr xy (ps ! i) + kEps \<le> dist_sqr xy (ps ! k)"
    by auto
  define qs where "qs = take j ps"
  have i: "i < length qs" and nth: "qs ! i = ps ! i" and take: "take i qs = take i ps"
    using j by (simp_all add: qs_def min_def)
  have upd: "dist_sqr xy (ps ! i) < running_best xy ps i + kEps"
    using position_scan_updated_at_result [OF scan ne first] by simp
  have quiet: "\<forall>q \<in> set (drop (Suc i) qs). dist_sqr xy (ps ! i) + kEps \<le> dist_sqr xy q"
  proof
    fix q assume "q \<in> set (drop (Suc i) qs)"
    then obtain k where k: "k < length (drop (Suc i) qs)" "q = drop (Suc i) qs ! k"
      by (auto simp: in_set_conv_nth)
    then have "Suc i + k < j" "q = ps ! (Suc i + k)"
      using j by (simp_all add: qs_def)
    with later j show "dist_sqr xy (ps ! i) + kEps \<le> dist_sqr xy q"
      by simp
  qed
  obtain b bi where before: "position_scan xy (take i ps) 0 (DBL_MAX, 0) = (b, bi)"
    by (cases "position_scan xy (take i ps) 0 (DBL_MAX, 0)")
  with upd have test: "dist_sqr xy (ps ! i) < b + kEps"
    by (simp add: running_best_def)
  have "position_scan xy qs 0 (DBL_MAX, 0)
          = position_scan xy (qs ! i # drop (Suc i) qs) i (b, bi)"
    using position_scan_split [OF i, of xy] before take by simp
  also have "\<dots> = position_scan xy (drop (Suc i) qs) (Suc i) (dist_sqr xy (ps ! i), i)"
    using test nth by simp
  also have "\<dots> = (dist_sqr xy (ps ! i), i)"
    using quiet by (rule position_scan_no_update)
  finally show ?thesis
    by (simp add: running_best_def qs_def)
qed

text \<open>
  C6, as the code has it. The comparison is \<open>dist_sqr < min_dist_sqr + kEps\<close>, so a later
  point replaces the running best whenever its squared distance is below the running
  best plus \<open>kEps\<close>, also when it is equal or slightly greater. For a non-empty trajectory
  whose points are within a kilometre of the query point (squared distance below \<open>10\<^sup>6\<close>,
  where the spacing of the doubles is far below \<open>kEps\<close>), \<open>GetPositionMatchedIndex\<close>
  returns the last index at which that comparison succeeded: it is a valid index \<open>i\<close>, the
  comparison succeeded at \<open>i\<close> against the running best of the points before it, and at
  every later index \<open>j\<close> the running best is the squared distance of point \<open>i\<close> and the
  comparison failed, so that point \<open>j\<close> is at least \<open>kEps\<close> (in squared distance) farther
  than point \<open>i\<close>. A point that is nearer than every other point by at least \<open>kEps\<close> is
  the one returned.
\<close>

theorem GetPositionMatchedIndex_last_within_eps:
  assumes ne: "trajectory \<noteq> []"
      and near: "\<forall>p \<in> set trajectory. dist_sqr xy p < 10 ^ 6"
  shows "\<exists>i. GetPositionMatchedIndex xy trajectory = Inr i \<and> i < length trajectory
           \<and> dist_sqr xy (trajectory ! i) < running_best xy trajectory i + kEps
           \<and> (\<forall>j. i < j \<and> j < length trajectory \<longrightarrow>
                 running_best xy trajectory j = dist_sqr xy (trajectory ! i)
                 \<and> \<not> dist_sqr xy (trajectory ! j) < running_best xy trajectory j + kEps
                 \<and> dist_sqr xy (trajectory ! i) + kEps \<le> dist_sqr xy (trajectory ! j))
           \<and> (\<forall>k < length trajectory.
                 (\<forall>j < length trajectory. j \<noteq> k \<longrightarrow>
                     dist_sqr xy (trajectory ! k) + kEps \<le> dist_sqr xy (trajectory ! j))
                 \<longrightarrow> i = k)"
proof -
  have fin: "dist_sqr xy p < DBL_MAX + kEps" if "p \<in> set trajectory" for p
    using that near DBL_MAX_large kEps_pos by fastforce
  obtain m' i where scan: "position_scan xy trajectory 0 (DBL_MAX, 0) = (m', i)"
    by (cases "position_scan xy trajectory 0 (DBL_MAX, 0)")
  then have res: "GetPositionMatchedIndex xy trajectory = Inr i"
    using ne by (simp add: GetPositionMatchedIndex_def)
  have first: "dist_sqr xy (hd trajectory) < DBL_MAX + kEps"
    using ne by (simp add: fin)
  from position_scan_updated_at_result [OF scan ne first]
  have valid: "i < length trajectory"
    and succeeded: "dist_sqr xy (trajectory ! i) < running_best xy trajectory i + kEps"
    by simp_all
  from first ne have "\<not> (\<forall>p \<in> set trajectory. DBL_MAX + kEps \<le> dist_sqr xy p)"
    by (cases trajectory) (auto simp: not_le intro!: bexI)
  with position_scan_result [OF scan]
  have farther: "\<forall>j. i < j \<and> j < length trajectory \<longrightarrow>
                   dist_sqr xy (trajectory ! i) + kEps \<le> dist_sqr xy (trajectory ! j)"
    by auto
  have later: "\<forall>j. i < j \<and> j < length trajectory \<longrightarrow>
                 running_best xy trajectory j = dist_sqr xy (trajectory ! i)
                 \<and> \<not> dist_sqr xy (trajectory ! j) < running_best xy trajectory j + kEps
                 \<and> dist_sqr xy (trajectory ! i) + kEps \<le> dist_sqr xy (trajectory ! j)"
  proof (intro allI impI)
    fix j assume j: "i < j \<and> j < length trajectory"
    then have best: "running_best xy trajectory j = dist_sqr xy (trajectory ! i)"
      using running_best_after_result [OF scan ne first] by simp
    from farther j have "dist_sqr xy (trajectory ! i) + kEps \<le> dist_sqr xy (trajectory ! j)"
      by simp
    with best show "running_best xy trajectory j = dist_sqr xy (trajectory ! i)
                 \<and> \<not> dist_sqr xy (trajectory ! j) < running_best xy trajectory j + kEps
                 \<and> dist_sqr xy (trajectory ! i) + kEps \<le> dist_sqr xy (trajectory ! j)"
      by simp
  qed
  have sep: "\<forall>k < length trajectory.
                 (\<forall>j < length trajectory. j \<noteq> k \<longrightarrow>
                     dist_sqr xy (trajectory ! k) + kEps \<le> dist_sqr xy (trajectory ! j))
                 \<longrightarrow> i = k"
  proof (intro allI impI)
    fix k
    assume k: "k < length trajectory"
      and s: "\<forall>j < length trajectory. j \<noteq> k \<longrightarrow>
                     dist_sqr xy (trajectory ! k) + kEps \<le> dist_sqr xy (trajectory ! j)"
    from k have "dist_sqr xy (trajectory ! k) < DBL_MAX + kEps"
      by (simp add: fin)
    from position_scan_separated [OF k s this] scan show "i = k" by simp
  qed
  from res valid succeeded later sep show ?thesis by blast
qed

text \<open>
  C6 as stated (the earliest index at the minimal distance is returned; a later point at
  an equal or greater distance never replaces the running best) fails: for two points at
  the same place the code returns index 1, and for a second point 1 mm farther than the
  first the code returns index 1 as well, where the earliest nearest index is 0.
\<close>

theorem GetPositionMatchedIndex_not_earliest:
  "GetPositionMatchedIndex (0, 0) [point_at 0 0, point_at 0 0] = Inr 1
   \<and> earliest_nearest_index (0, 0) [point_at 0 0, point_at 0 0] = 0
   \<and> GetPositionMatchedIndex (0, 0) [point_at 0 0, point_at (1 / 1000) 0] = Inr 1
   \<and> earliest_nearest_index (0, 0) [point_at 0 0, point_at (1 / 1000) 0] = 0
   \<and> dist_sqr (0, 0) (point_at 0 0) < dist_sqr (0, 0) (point_at (1 / 1000) 0)"
proof -
  have big: "0 < DBL_MAX + kEps"
    using DBL_MAX_ge kEps_pos by linarith
  show ?thesis
    using big
    by (simp add: GetPositionMatchedIndex_def earliest_nearest_index_def dist_sqr_def point_at_def
          default_trajectory_point_def default_path_point_def kEps_def)
qed

text \<open>Points at the squared distances 0, 5, 0 and 7 (the second coordinate carries the
  distance): the comparison succeeds at the indices 0 and 2 and fails at 1 and 3, and the
  index returned is 2.\<close>

theorem GetPositionMatchedIndex_last_within_eps_witness:
  "GetPositionMatchedIndex (0, 0) [point_at 0 0, point_at 1 2, point_at 0 0, point_at 2 (sqrt 3)]
     = Inr 2"
proof -
  let ?T = "[point_at 0 0, point_at 1 2, point_at 0 0, point_at 2 (sqrt 3)]"
  have ne: "?T \<noteq> []" by simp
  have d: "dist_sqr (0, 0) (point_at 0 0) = 0" "dist_sqr (0, 0) (point_at 1 2) = 5"
      "dist_sqr (0, 0) (point_at 2 (sqrt 3)) = 7"
    by (simp_all add: dist_sqr_def point_at_def default_trajectory_point_def default_path_point_def)
  have near: "\<forall>p \<in> set ?T. dist_sqr (0, 0) p < 10 ^ 6"
    by (simp add: d)
  from GetPositionMatchedIndex_last_within_eps [OF ne near] obtain i where
    res: "GetPositionMatchedIndex (0, 0) ?T = Inr i"
    and valid: "i < length ?T"
    and succeeded: "dist_sqr (0, 0) (?T ! i) < running_best (0, 0) ?T i + kEps"
    and later: "\<forall>j. i < j \<and> j < length ?T \<longrightarrow>
                 running_best (0, 0) ?T j = dist_sqr (0, 0) (?T ! i)
                 \<and> \<not> dist_sqr (0, 0) (?T ! j) < running_best (0, 0) ?T j + kEps
                 \<and> dist_sqr (0, 0) (?T ! i) + kEps \<le> dist_sqr (0, 0) (?T ! j)"
    by blast
  from valid have "i = 0 \<or> i = 1 \<or> i = 2 \<or> i = 3"
    by (simp add: less_Suc_eq numeral_eq_Suc)
  then have "i = 2"
  proof (elim disjE)
    assume "i = 0"
    with later [rule_format, of 2]
    have "dist_sqr (0, 0) (?T ! 0) + kEps \<le> dist_sqr (0, 0) (?T ! 2)"
      by simp
    then show ?thesis by (simp add: d kEps_def)
  next
    assume "i = 1"
    with later [rule_format, of 2]
    have "dist_sqr (0, 0) (?T ! 1) + kEps \<le> dist_sqr (0, 0) (?T ! 2)"
      by simp
    then show ?thesis by (simp add: d kEps_def)
  next
    assume "i = 2"
    then show ?thesis .
  next
    assume i: "i = 3"
    have "running_best (0, 0) ?T 3 = 0"
      using DBL_MAX_ge kEps_pos by (simp add: running_best_def d kEps_def numeral_eq_Suc)
    with succeeded i show ?thesis by (simp add: d kEps_def)
  qed
  with res show ?thesis by simp
qed

section \<open>Properties of GetStitchingTrajectory\<close>

subsection \<open>The slice start index\<close>

lemma sint_ucast_64_32:
  "sint (ucast (w :: 64 word) :: 32 word) = signed_take_bit 31 (uint w)"
  by (simp add: signed_ucast_eq)

lemma uint_word_of_nat_64:
  "m < 2 ^ 64 \<Longrightarrow> uint (word_of_nat m :: 64 word) = int m"
  by (simp add: unsigned_of_nat take_bit_nat_eq_self) 

lemma uint_small:
  fixes p :: "64 word"
  assumes "unat p < 2 ^ 31"
  shows "uint p < 2 ^ 31"
proof -
  have "int (unat p) < int (2 ^ 31)"
    using assms by (simp only: of_nat_less_iff)
  then show ?thesis
    by (simp only: uint_nat) simp
qed

lemma sint_truncated_difference:
  fixes p :: "64 word"
  assumes m: "m < 2 ^ 31" and p: "unat p < 2 ^ 31"
  shows "sint (ucast (word_of_nat m - p :: 64 word) :: 32 word) = int m - uint p"
proof -
  have um: "uint (word_of_nat m :: 64 word) = int m"
    using m by (intro uint_word_of_nat_64) simp
  have up: "0 \<le> uint p" "uint p < 2 ^ 31"
    using uint_small [OF p] by simp_all
  have "uint (word_of_nat m - p :: 64 word) = take_bit 64 (int m - uint p)"
    by (simp only: uint_word_ariths um take_bit_eq_mod) simp
  then have "sint (ucast (word_of_nat m - p :: 64 word) :: 32 word)
               = signed_take_bit 31 (take_bit 64 (int m - uint p))"
    by (simp only: sint_ucast_64_32)
  also have "\<dots> = signed_take_bit 31 (int m - uint p)"
    by (simp add: signed_take_bit_take_bit)
  also have "\<dots> = int m - uint p"
  proof (rule signed_take_bit_int_eq_self)
    have mi: "int m < 2 ^ 31"
      using m by simp
    show "- (2 ^ 31) \<le> int m - uint p"
      using up(2) by linarith
    show "int m - uint p < 2 ^ 31"
      using mi uint_nonnegative [of p] by linarith
  qed
  finally show ?thesis .
qed

lemma slice_start_index_small:
  assumes "m < 2 ^ 31" and "unat p < 2 ^ 31"
  shows "slice_start_index m p = m - unat p"
proof -
  have "uint p = int (unat p)"
    by (rule uint_nat)
  then have "nat (max 0 (int m - uint p)) = m - unat p"
    by (simp only:)
  then show ?thesis
    using sint_truncated_difference [OF assms] by (simp only: slice_start_index_def)
qed

subsection \<open>The binary search\<close>

declare lower_bound_loop.simps [simp del]

lemma lower_bound_loop_done: "lower_bound_loop cmp xs v first 0 = first"
  by (simp add: lower_bound_loop.simps)

lemma lower_bound_loop_right:
  "0 < len \<Longrightarrow> cmp (xs ! (first + len div 2)) v \<Longrightarrow>
     lower_bound_loop cmp xs v first len
       = lower_bound_loop cmp xs v (first + len div 2 + 1) (len - len div 2 - 1)"
  by (subst lower_bound_loop.simps) (simp add: Let_def)

lemma lower_bound_loop_left:
  "0 < len \<Longrightarrow> \<not> cmp (xs ! (first + len div 2)) v \<Longrightarrow>
     lower_bound_loop cmp xs v first len = lower_bound_loop cmp xs v first (len div 2)"
  by (subst lower_bound_loop.simps) (simp add: Let_def)

lemma lower_bound_loop_bounds:
  "first \<le> lower_bound_loop cmp xs v first len \<and> lower_bound_loop cmp xs v first len \<le> first + len"
proof (induction len arbitrary: first rule: less_induct)
  case (less len)
  show ?case
  proof (cases "len = 0")
    case True
    then show ?thesis by (simp add: lower_bound_loop_done)
  next
    case False
    then have pos: "0 < len" and half: "len div 2 < len" and rest: "len - len div 2 - 1 < len"
      by simp_all
    show ?thesis
    proof (cases "cmp (xs ! (first + len div 2)) v")
      case True
      from less.IH [OF rest, of "first + len div 2 + 1"] half show ?thesis
        by (simp add: lower_bound_loop_right [where cmp=cmp and v=v, OF pos True])
    next
      case no: False
      from less.IH [OF half, of first] half show ?thesis
        by (simp add: lower_bound_loop_left [where cmp=cmp and v=v, OF pos no])
    qed
  qed
qed

text \<open>The search returns the end of its range only after the comparison held at the last element.\<close>

lemma lower_bound_loop_end:
  "lower_bound_loop cmp xs v first len = first + len \<Longrightarrow> 0 < len \<Longrightarrow>
     cmp (xs ! (first + len - 1)) v"
proof (induction len arbitrary: first rule: less_induct)
  case (less len)
  from less.prems have pos: "0 < len" and half: "len div 2 < len"
    and rest: "len - len div 2 - 1 < len"
    by simp_all
  show ?case
  proof (cases "cmp (xs ! (first + len div 2)) v")
    case True
    with less.prems have eq: "lower_bound_loop cmp xs v (first + len div 2 + 1) (len - len div 2 - 1)
                = (first + len div 2 + 1) + (len - len div 2 - 1)"
      using half by (simp add: lower_bound_loop_right [where cmp=cmp and v=v, OF pos True])
    show ?thesis
    proof (cases "len - len div 2 - 1 = 0")
      case True
      then have "first + len - 1 = first + len div 2"
        using half by simp
      with \<open>cmp (xs ! (first + len div 2)) v\<close> show ?thesis by simp
    next
      case False
      then have "cmp (xs ! ((first + len div 2 + 1) + (len - len div 2 - 1) - 1)) v"
        using less.IH [OF rest eq] by simp
      moreover have "(first + len div 2 + 1) + (len - len div 2 - 1) - 1 = first + len - 1"
        using half by simp
      ultimately show ?thesis by simp
    qed
  next
    case no: False
    have "lower_bound_loop cmp xs v first (len div 2) \<le> first + len div 2"
      by (simp add: lower_bound_loop_bounds)
    with less.prems half show ?thesis
      by (simp add: lower_bound_loop_left [where cmp=cmp and v=v, OF pos no])
  qed
qed

text \<open>A comparison that holds more often sends the search at least as far.\<close>

lemma lower_bound_loop_mono:
  assumes "\<And>x. cmp x v \<Longrightarrow> cmp x v'"
  shows "lower_bound_loop cmp xs v first len \<le> lower_bound_loop cmp xs v' first len"
proof (induction len arbitrary: first rule: less_induct)
  case (less len)
  show ?case
  proof (cases "len = 0")
    case True
    then show ?thesis by (simp add: lower_bound_loop_done)
  next
    case False
    then have pos: "0 < len" and half: "len div 2 < len" and rest: "len - len div 2 - 1 < len"
      by simp_all
    show ?thesis
    proof (cases "cmp (xs ! (first + len div 2)) v")
      case True
      then have "cmp (xs ! (first + len div 2)) v'"
        by (rule assms)
      with True less.IH [OF rest, of "first + len div 2 + 1"] show ?thesis
        by (simp add: lower_bound_loop_right [where cmp=cmp and v=v, OF pos True]
              lower_bound_loop_right [where cmp=cmp and v=v', OF pos])
    next
      case no: False
      show ?thesis
      proof (cases "cmp (xs ! (first + len div 2)) v'")
        case True
        have "lower_bound_loop cmp xs v first (len div 2) \<le> first + len div 2"
          by (simp add: lower_bound_loop_bounds)
        moreover have "first + len div 2 + 1
                \<le> lower_bound_loop cmp xs v' (first + len div 2 + 1) (len - len div 2 - 1)"
          by (simp add: lower_bound_loop_bounds)
        ultimately show ?thesis
          by (simp add: lower_bound_loop_left [where cmp=cmp and v=v, OF pos no]
                lower_bound_loop_right [where cmp=cmp and v=v', OF pos True])
      next
        case False
        with no less.IH [OF half, of first] show ?thesis
          by (simp add: lower_bound_loop_left [where cmp=cmp and v=v, OF pos no]
                lower_bound_loop_left [where cmp=cmp and v=v', OF pos False])
      qed
    qed
  qed
qed

text \<open>Where the comparison holds for no element, the search stays at its start.\<close>

lemma lower_bound_loop_none:
  assumes "\<forall>x \<in> set xs. \<not> cmp x v"
  shows "first + len \<le> length xs \<Longrightarrow> lower_bound_loop cmp xs v first len = first"
proof (induction len arbitrary: first rule: less_induct)
  case (less len)
  show ?case
  proof (cases "len = 0")
    case True
    then show ?thesis by (simp add: lower_bound_loop_done)
  next
    case False
    then have pos: "0 < len" and half: "len div 2 < len"
      by simp_all
    with less.prems have "first + len div 2 < length xs"
      by simp
    then have no: "\<not> cmp (xs ! (first + len div 2)) v"
      using assms by simp
    from less.IH [OF half, of first] less.prems half show ?thesis
      by (simp add: lower_bound_loop_left [where cmp=cmp and v=v, OF pos no])
  qed
qed

subsection \<open>The matched indices\<close>

lemma GetTimeMatchIndex_Inr:
  "history \<noteq> [] \<Longrightarrow>
     GetTimeMatchIndex relative (1 / 100000) history = Inr (time_matched_index relative history)"
  by (simp add: time_matched_index_def GetTimeMatchIndex_def)

lemma GetPositionMatchedIndex_Inr:
  "history \<noteq> [] \<Longrightarrow>
     GetPositionMatchedIndex (ks_x state, ks_y state) history
       = Inr (position_matched_index state history)"
  by (simp add: position_matched_index_def GetPositionMatchedIndex_def)

lemma time_matched_index_less:
  assumes "history \<noteq> []"
  shows "time_matched_index relative history < length history"
proof (cases "relative > relative_time (last history)")
  case True
  with assms show ?thesis
    by (simp add: time_matched_index_def GetTimeMatchIndex_def)
next
  case False
  let ?cmp = "\<lambda>p rel. relative_time p + 1 / 100000 < rel"
  have pos: "0 < length history"
    using assms by simp
  have le: "lower_bound_loop ?cmp history relative 0 (length history) \<le> length history"
    using lower_bound_loop_bounds [of 0 ?cmp history relative "length history"] by simp
  have "lower_bound_loop ?cmp history relative 0 (length history) \<noteq> length history"
  proof
    assume "lower_bound_loop ?cmp history relative 0 (length history) = length history"
    then have "lower_bound_loop ?cmp history relative 0 (length history) = 0 + length history"
      by simp
    from lower_bound_loop_end [where cmp="?cmp", OF this pos]
    have "relative_time (history ! (length history - 1)) + 1 / 100000 < relative"
      by simp
    then have "relative_time (last history) + 1 / 100000 < relative"
      using assms by (simp add: last_conv_nth)
    with False show False
      by simp
  qed
  with le assms False show ?thesis
    by (simp add: time_matched_index_def GetTimeMatchIndex_def lower_bound_def)
qed

lemma time_matched_index_mono:
  assumes ne: "history \<noteq> []" and le: "r \<le> r'"
  shows "time_matched_index r history \<le> time_matched_index r' history"
proof (cases "r' > relative_time (last history)")
  case True
  then have "time_matched_index r' history = length history - 1"
    using ne by (simp add: time_matched_index_def GetTimeMatchIndex_def)
  with time_matched_index_less [OF ne, of r] show ?thesis
    by simp
next
  case False
  with le have r: "\<not> r > relative_time (last history)"
    by simp
  let ?cmp = "\<lambda>p rel. relative_time p + 1 / 100000 < rel"
  have "lower_bound_loop ?cmp history r 0 (length history)
          \<le> lower_bound_loop ?cmp history r' 0 (length history)"
    using le by (intro lower_bound_loop_mono) simp
  with ne False r show ?thesis
    by (simp add: time_matched_index_def GetTimeMatchIndex_def lower_bound_def)
qed

text \<open>On a history ordered by relative time, a current time before the first point gives
  the time-matched index 0.\<close>

lemma time_matched_index_before_first:
  assumes ne: "history \<noteq> []" and ordered: "time_ordered history"
      and before: "relative < relative_time (hd history)"
  shows "time_matched_index relative history = 0"
proof -
  from ne obtain p ps where history: "history = p # ps"
    by (cases history) auto
  have all: "\<forall>q \<in> set history. relative_time (hd history) \<le> relative_time q"
    using ordered by (auto simp: history time_ordered_def)
  then have none: "\<forall>q \<in> set history. \<not> (relative_time q + 1 / 100000 < relative)"
    using before by fastforce
  from all ne have "relative_time (hd history) \<le> relative_time (last history)"
    by simp
  with before have "\<not> relative > relative_time (last history)"
    by simp
  moreover have "lower_bound_loop (\<lambda>p rel. relative_time p + 1 / 100000 < rel) history relative 0
                   (length history) = 0"
    using none by (intro lower_bound_loop_none) simp_all
  ultimately show ?thesis
    using ne by (simp add: time_matched_index_def GetTimeMatchIndex_def lower_bound_def)
qed

lemma position_matched_index_less:
  assumes "history \<noteq> []"
  shows "position_matched_index state history < length history"
proof -
  obtain m' i where scan: "position_scan (ks_x state, ks_y state) history 0 (DBL_MAX, 0) = (m', i)"
    by (cases "position_scan (ks_x state, ks_y state) history 0 (DBL_MAX, 0)")
  from position_scan_result [OF scan] assms have "i < length history"
    by auto
  with scan assms show ?thesis
    by (simp add: position_matched_index_def GetPositionMatchedIndex_def)
qed

subsection \<open>The two paths\<close>

lemma GetStitchingTrajectory_reinit:
  assumes "takes_reinit_branch cfg mp now"
  shows "GetStitchingTrajectory N cfg mp now cycle p
           = Inr (ComputeReinitStitchingTrajectory N cycle (vehicle_state mp))"
proof (cases "\<not> has_history_trajectory mp \<or> trajectory_points (history_trajectory mp) = []")
  case True
  then show ?thesis
    by (auto simp: GetStitchingTrajectory_def Let_def)
next
  case False
  define H where "H = trajectory_points (history_trajectory mp)"
  define rel where "rel = now - stamp (history_trajectory mp)"
  from False have has: "has_history_trajectory mp" and ne: "H \<noteq> []"
    by (simp_all add: H_def)
  note tm = GetTimeMatchIndex_Inr [OF ne]
  note pm = GetPositionMatchedIndex_Inr [OF ne]
  from assms has ne consider
      (before) "time_matched_index rel H = 0 \<and> rel < relative_time (hd H)"
    | (last) "time_matched_index rel H = length H - 1"
    | (lat) "\<bar>snd (stitching_lon_lat_diff mp now)\<bar> > max_replan_lat_distance_threshold cfg"
    | (lon) "\<bar>fst (stitching_lon_lat_diff mp now)\<bar> > max_replan_lon_distance_threshold cfg"
    by (auto simp: takes_reinit_branch_def Let_def H_def rel_def)
  then show ?thesis
  proof cases
    case before
    then show ?thesis
      using has ne
      by (simp add: GetStitchingTrajectory_def Let_def tm H_def [symmetric] rel_def [symmetric])
  next
    case last
    then show ?thesis
      using has ne
      by (simp add: GetStitchingTrajectory_def Let_def tm H_def [symmetric] rel_def [symmetric])
  next
    case lat
    then show ?thesis
      using has ne
      by (simp add: GetStitchingTrajectory_def Let_def tm pm H_def [symmetric] rel_def [symmetric]
            stitching_lon_lat_diff_def)
  next
    case lon
    then show ?thesis
      using has ne
      by (simp add: GetStitchingTrajectory_def Let_def tm pm H_def [symmetric] rel_def [symmetric]
            stitching_lon_lat_diff_def)
  qed
qed

lemma ComputeReinitStitchingTrajectory_single:
  "\<exists>pt. ComputeReinitStitchingTrajectory N cycle state = [pt]"
  by (simp add: ComputeReinitStitchingTrajectory_def Let_def)

lemma GetStitchingTrajectory_normal:
  assumes "\<not> takes_reinit_branch cfg mp now"
  shows "GetStitchingTrajectory N cfg mp now cycle p =
          (let history = trajectory_points (history_trajectory mp);
               first = stitching_first_index mp now p;
               last_excl = stitching_forward_index mp now cycle + 1;
               slice = take (last_excl - first) (drop first history)
           in if last_excl < first then Inl UndefinedBehaviour
              else if slice = [] then Inl UndefinedBehaviour
              else Inr (map (rebase (stamp (history_trajectory mp) - now)
                               (pp_s (path_point (last slice)))) slice))"
proof -
  define H where "H = trajectory_points (history_trajectory mp)"
  define rel where "rel = now - stamp (history_trajectory mp)"
  from assms have has: "has_history_trajectory mp" and ne: "H \<noteq> []"
    and nb: "\<not> (time_matched_index rel H = 0 \<and> rel < relative_time (hd H))"
    and nl: "time_matched_index rel H \<noteq> length H - 1"
    and lat: "\<not> \<bar>snd (stitching_lon_lat_diff mp now)\<bar> > max_replan_lat_distance_threshold cfg"
    and lon: "\<not> \<bar>fst (stitching_lon_lat_diff mp now)\<bar> > max_replan_lon_distance_threshold cfg"
    by (simp_all add: takes_reinit_branch_def Let_def H_def rel_def)
  from nl time_matched_index_less [OF ne, of rel]
  have nl': "\<not> length H - 1 \<le> time_matched_index rel H"
    by simp
  note tm = GetTimeMatchIndex_Inr [OF ne]
  note pm = GetPositionMatchedIndex_Inr [OF ne]
  from lat lon have dev:
    "\<not> max_replan_lat_distance_threshold cfg
        < \<bar>snd (GetLatAndLonDistFromRefPoint (ks_x (vehicle_state mp)) (ks_y (vehicle_state mp))
                 (path_point (H ! position_matched_index (vehicle_state mp) H)))\<bar>"
    "\<not> max_replan_lon_distance_threshold cfg
        < \<bar>pp_s (path_point (H ! time_matched_index rel H))
           - fst (GetLatAndLonDistFromRefPoint (ks_x (vehicle_state mp)) (ks_y (vehicle_state mp))
                 (path_point (H ! position_matched_index (vehicle_state mp) H)))\<bar>"
    by (simp_all add: stitching_lon_lat_diff_def Let_def H_def [symmetric] rel_def [symmetric])
  from nb have first_test:
    "(if time_matched_index rel H = 0 \<and> rel < relative_time (hd H) then a else b) = b" for a b :: 'x
    by auto
  show ?thesis
    using has ne nl' dev
    by (simp add: GetStitchingTrajectory_def Let_def tm pm H_def [symmetric] rel_def [symmetric]
          stitching_first_index_def stitching_forward_index_def first_test)
qed

lemma history_slice:
  assumes "first \<le> fi" and "fi < length H"
  shows "take (fi + 1 - first) (drop first H) \<noteq> []"
    and "length (take (fi + 1 - first) (drop first H)) = fi + 1 - first"
    and "last (take (fi + 1 - first) (drop first H)) = H ! fi"
    and "i < fi + 1 - first \<Longrightarrow> take (fi + 1 - first) (drop first H) ! i = H ! (first + i)"
proof -
  show len: "length (take (fi + 1 - first) (drop first H)) = fi + 1 - first"
    using assms by simp
  then show ne: "take (fi + 1 - first) (drop first H) \<noteq> []"
    using assms by (metis Suc_diff_le Suc_eq_plus1 length_0_conv nat.distinct(1))
  show nth: "i < fi + 1 - first \<Longrightarrow> take (fi + 1 - first) (drop first H) ! i = H ! (first + i)" for i
    using assms by simp
  have "last (take (fi + 1 - first) (drop first H))
          = take (fi + 1 - first) (drop first H) ! (fi - first)"
    using ne len assms by (simp add: last_conv_nth)
  also have "\<dots> = H ! fi"
    using assms by simp
  finally show "last (take (fi + 1 - first) (drop first H)) = H ! fi" .
qed

lemma normal_path_indices:
  assumes normal: "\<not> takes_reinit_branch cfg mp now"
      and cycle: "0 \<le> cycle"
      and len: "length (trajectory_points (history_trajectory mp)) < 2 ^ 31"
      and pres: "unat p < 2 ^ 31"
  shows "stitching_first_index mp now p \<le> stitching_forward_index mp now cycle"
    and "stitching_forward_index mp now cycle < length (trajectory_points (history_trajectory mp))"
    and "stitching_first_index mp now p =
           min (position_matched_index (vehicle_state mp) (trajectory_points (history_trajectory mp)))
               (time_matched_index (now - stamp (history_trajectory mp))
                  (trajectory_points (history_trajectory mp)))
           - unat p"
proof -
  define H where "H = trajectory_points (history_trajectory mp)"
  define rel where "rel = now - stamp (history_trajectory mp)"
  from normal have ne: "H \<noteq> []"
    by (simp add: takes_reinit_branch_def Let_def H_def)
  have ti: "time_matched_index rel H < length H"
    by (rule time_matched_index_less [OF ne])
  have mono: "time_matched_index rel H \<le> time_matched_index (rel + cycle) H"
    using cycle by (intro time_matched_index_mono [OF ne]) simp
  have small: "min (position_matched_index (vehicle_state mp) H) (time_matched_index rel H) < 2 ^ 31"
    using ti len by (simp add: H_def [symmetric] min_def)
  have first: "stitching_first_index mp now p
                 = min (position_matched_index (vehicle_state mp) H) (time_matched_index rel H) - unat p"
    using slice_start_index_small [OF small pres]
    by (simp add: stitching_first_index_def Let_def H_def rel_def)
  then show "stitching_first_index mp now p =
           min (position_matched_index (vehicle_state mp) (trajectory_points (history_trajectory mp)))
               (time_matched_index (now - stamp (history_trajectory mp))
                  (trajectory_points (history_trajectory mp)))
           - unat p"
    by (simp add: H_def rel_def)
  from first mono show "stitching_first_index mp now p \<le> stitching_forward_index mp now cycle"
    by (simp add: stitching_forward_index_def Let_def H_def rel_def)
  show "stitching_forward_index mp now cycle < length (trajectory_points (history_trajectory mp))"
    using time_matched_index_less [OF ne, of "rel + cycle"]
    by (simp add: stitching_forward_index_def Let_def H_def rel_def)
qed

lemma GetStitchingTrajectory_normal_slice:
  assumes normal: "\<not> takes_reinit_branch cfg mp now"
      and cycle: "0 \<le> cycle"
      and len: "length (trajectory_points (history_trajectory mp)) < 2 ^ 31"
      and pres: "unat p < 2 ^ 31"
  shows "GetStitchingTrajectory N cfg mp now cycle p =
           Inr (map (rebase (stamp (history_trajectory mp) - now)
                       (pp_s (path_point (trajectory_points (history_trajectory mp)
                                            ! stitching_forward_index mp now cycle))))
                  (take (stitching_forward_index mp now cycle + 1 - stitching_first_index mp now p)
                     (drop (stitching_first_index mp now p)
                        (trajectory_points (history_trajectory mp)))))"
proof -
  note idx = normal_path_indices [OF normal cycle len pres]
  note slice = history_slice [OF idx(1) idx(2)]
  show ?thesis
    using idx(1) slice(1) slice(3)
    by (simp add: GetStitchingTrajectory_normal [OF normal] Let_def)
qed

lemma rebase_fields:
  "pp_x (path_point (rebase d z q)) = pp_x (path_point q)"
  "pp_y (path_point (rebase d z q)) = pp_y (path_point q)"
  "pp_s (path_point (rebase d z q)) = pp_s (path_point q) - z"
  "relative_time (rebase d z q) = relative_time q + d"
  by (simp_all add: rebase_def)

lemma GetStitchingTrajectory_total:
  assumes "0 \<le> cycle" and "length (trajectory_points (history_trajectory mp)) < 2 ^ 31"
      and "unat p < 2 ^ 31"
  shows "\<exists>st. GetStitchingTrajectory N cfg mp now cycle p = Inr st \<and> st \<noteq> []"
proof (cases "takes_reinit_branch cfg mp now")
  case True
  then show ?thesis
    using ComputeReinitStitchingTrajectory_single [of N cycle "vehicle_state mp"]
    by (auto simp: GetStitchingTrajectory_reinit)
next
  case False
  note idx = normal_path_indices [OF False assms]
  have "take (stitching_forward_index mp now cycle + 1 - stitching_first_index mp now p)
                     (drop (stitching_first_index mp now p)
                        (trajectory_points (history_trajectory mp))) \<noteq> []"
    using history_slice(1) idx by blast
  then show ?thesis
    using GetStitchingTrajectory_normal_slice [OF False assms, of N] by simp
qed

lemma GetStitchingTrajectory_Inr_nonempty:
  assumes "GetStitchingTrajectory N cfg mp now cycle p = Inr st"
  shows "st \<noteq> []"
proof (cases "takes_reinit_branch cfg mp now")
  case True
  with assms show ?thesis
    using ComputeReinitStitchingTrajectory_single [of N cycle "vehicle_state mp"]
    by (auto simp: GetStitchingTrajectory_reinit)
next
  case False
  with assms show ?thesis
    by (auto simp: GetStitchingTrajectory_normal Let_def split: if_splits)
qed

subsection \<open>The conditions of the specification\<close>

text \<open>The lateral deviation of the specification is the one the code computes; the
  longitudinal one is, where the two projections agree.\<close>

lemma spec_lateral_deviation:
  "snd (spec_lon_lat_deviation mp now) = snd (stitching_lon_lat_diff mp now)"
  by (simp add: spec_lon_lat_deviation_def stitching_lon_lat_diff_def Let_def
        GetLatAndLonDistFromRefPoint_lateral)

lemma spec_longitudinal_deviation:
  "longitudinal_agrees mp \<Longrightarrow>
     fst (spec_lon_lat_deviation mp now) = fst (stitching_lon_lat_diff mp now)"
  by (simp add: spec_lon_lat_deviation_def stitching_lon_lat_diff_def longitudinal_agrees_def Let_def)

text \<open>Each reinit condition of the specification makes the code take its reinit branch;
  for the current time before the first point this needs a history ordered by time, and
  for the longitudinal deviation it needs the two projections to agree.\<close>

lemma reinit_conditions_take_branch:
  assumes "\<not> has_history_trajectory mp
           \<or> trajectory_points (history_trajectory mp) = []
           \<or> (time_ordered (trajectory_points (history_trajectory mp))
               \<and> now - stamp (history_trajectory mp)
                   < relative_time (hd (trajectory_points (history_trajectory mp))))
           \<or> time_matched_index (now - stamp (history_trajectory mp))
                (trajectory_points (history_trajectory mp))
               = length (trajectory_points (history_trajectory mp)) - 1
           \<or> max_replan_lat_distance_threshold cfg < \<bar>snd (spec_lon_lat_deviation mp now)\<bar>
           \<or> (longitudinal_agrees mp
               \<and> max_replan_lon_distance_threshold cfg < \<bar>fst (spec_lon_lat_deviation mp now)\<bar>)"
  shows "takes_reinit_branch cfg mp now"
proof (cases "trajectory_points (history_trajectory mp) = []")
  case True
  then show ?thesis
    by (simp add: takes_reinit_branch_def Let_def)
next
  case False
  from assms show ?thesis
    using time_matched_index_before_first [OF False]
    by (auto simp: takes_reinit_branch_def Let_def spec_lateral_deviation
          spec_longitudinal_deviation)
qed


subsection \<open>A concrete history\<close>

lemma axis_indices:
  "time_matched_index 3 (trajectory_points axis_history) = 3"
  "time_matched_index 4 (trajectory_points axis_history) = 4"
  "time_matched_index (31 / 10) (trajectory_points axis_history) = 4"
  "time_matched_index 5 (trajectory_points axis_history) = 5"
  "position_matched_index axis_state (trajectory_points axis_history) = 3"
  by (simp_all add: time_matched_index_def GetTimeMatchIndex_def lower_bound_def
        lower_bound_loop.simps position_matched_index_def GetPositionMatchedIndex_def dist_sqr_def
        axis_history_def axis_state_def hist_point_def default_trajectory_point_def
        default_path_point_def DBL_MAX_def kEps_def)

lemma axis_facts:
  "stamp axis_history = 100"
  "length (trajectory_points axis_history) = 6"
  "trajectory_points axis_history \<noteq> []"
  "hd (trajectory_points axis_history) = hist_point 0"
  "trajectory_points axis_history ! 3 = hist_point 3"
  "trajectory_points axis_history ! 4 = hist_point 4"
  by (simp_all add: axis_history_def)

lemma axis_planner_facts:
  "has_history_trajectory axis_planner"
  "history_trajectory axis_planner = axis_history"
  "vehicle_state axis_planner = axis_state"
  by (simp_all add: axis_planner_def)

lemma axis_state_fields:
  "ks_x axis_state = 3"
  "ks_y axis_state = 0"
  "ks_v axis_state = 1"
  "ks_a axis_state = 0"
  by (simp_all add: axis_state_def)

lemma hist_point_fields:
  "pp_x (path_point (hist_point k)) = k"
  "pp_y (path_point (hist_point k)) = 0"
  "pp_s (path_point (hist_point k)) = k"
  "pp_theta (path_point (hist_point k)) = 0"
  "relative_time (hist_point k) = k"
  by (simp_all add: hist_point_def default_trajectory_point_def default_path_point_def)

lemma axis_not_reinit: "\<not> takes_reinit_branch (estop_cfg horizon step decel) axis_planner 103"
  by (simp add: takes_reinit_branch_def stitching_lon_lat_diff_def Let_def axis_planner_facts
        axis_facts axis_indices hist_point_fields GetLatAndLonDistFromRefPoint_def estop_cfg_def
        axis_state_fields)

lemma axis_normal_indices:
  "stitching_forward_index axis_planner 103 1 = 4"
  "stitching_forward_index axis_planner 103 (1 / 10) = 4"
  "stitching_first_index axis_planner 103 2 = 1"
  "stitching_first_index axis_planner 103 4294967294 = 5"
  by (simp_all add: stitching_forward_index_def stitching_first_index_def Let_def
        axis_planner_facts axis_facts axis_indices slice_start_index_def)

lemma axis_planner_updated:
  "axis_planner\<lparr>ego_object := object_at 1 0 0 0, vehicle_state := axis_state\<rparr> = axis_planner"
  by (simp add: axis_planner_def)

text \<open>The same history with the vehicle at other positions and at other times, and the
  history whose relative times are not ordered.\<close>

lemma axis_planner_at_facts:
  "has_history_trajectory (axis_planner_at x y)"
  "history_trajectory (axis_planner_at x y) = axis_history"
  "ks_x (vehicle_state (axis_planner_at x y)) = x"
  "ks_y (vehicle_state (axis_planner_at x y)) = y"
  "ks_v (vehicle_state (axis_planner_at x y)) = 1"
  "ks_a (vehicle_state (axis_planner_at x y)) = 0"
  by (simp_all add: axis_planner_at_def axis_planner_def axis_state_def)

lemma axis_time_indices:
  "time_matched_index (- 1) (trajectory_points axis_history) = 0"
  "time_matched_index 1 (trajectory_points axis_history) = 1"
  "time_matched_index 2 (trajectory_points axis_history) = 2"
  "time_matched_index (21 / 10) (trajectory_points axis_history) = 3"
  by (simp_all add: time_matched_index_def GetTimeMatchIndex_def lower_bound_def
        lower_bound_loop.simps axis_history_def hist_point_def default_trajectory_point_def
        default_path_point_def)

lemma axis_position_indices:
  "position_matched_index (vehicle_state (axis_planner_at 2 0)) (trajectory_points axis_history) = 2"
  "position_matched_index (vehicle_state (axis_planner_at 3 1)) (trajectory_points axis_history) = 3"
  "position_matched_index (vehicle_state (axis_planner_at (11 / 5) (2 / 5)))
     (trajectory_points axis_history) = 2"
  "position_matched_index (vehicle_state (axis_planner_at (33 / 10) (2 / 5)))
     (trajectory_points axis_history) = 3"
  by (simp_all add: position_matched_index_def GetPositionMatchedIndex_def dist_sqr_def
        axis_planner_at_facts axis_history_def hist_point_def default_trajectory_point_def
        default_path_point_def DBL_MAX_def kEps_def)

lemma axis_more_facts:
  "trajectory_points axis_history ! 0 = hist_point 0"
  "trajectory_points axis_history ! Suc 0 = hist_point 1"
  "trajectory_points axis_history ! 2 = hist_point 2"
  "trajectory_points axis_history ! 5 = hist_point 5"
  "time_ordered (trajectory_points axis_history)"
  by (simp_all add: axis_history_def time_ordered_def hist_point_fields)

lemma shuffled_facts:
  "has_history_trajectory shuffled_planner"
  "history_trajectory shuffled_planner = shuffled_history"
  "ks_x (vehicle_state shuffled_planner) = 2"
  "ks_y (vehicle_state shuffled_planner) = 0"
  "stamp shuffled_history = 100"
  "length (trajectory_points shuffled_history) = 4"
  "trajectory_points shuffled_history \<noteq> []"
  "relative_time (hd (trajectory_points shuffled_history)) = 5"
  "trajectory_points shuffled_history ! 2 = (hist_point 2)\<lparr>relative_time := 4\<rparr>"
  by (simp_all add: shuffled_planner_def shuffled_history_def axis_planner_at_def axis_planner_def
        axis_state_def)

lemma shuffled_indices:
  "time_matched_index 3 (trajectory_points shuffled_history) = 2"
  "time_matched_index 4 (trajectory_points shuffled_history) = 2"
  "position_matched_index (vehicle_state shuffled_planner) (trajectory_points shuffled_history) = 2"
  by (simp_all add: time_matched_index_def GetTimeMatchIndex_def lower_bound_def
        lower_bound_loop.simps position_matched_index_def GetPositionMatchedIndex_def dist_sqr_def
        shuffled_facts(3,4) shuffled_history_def hist_point_def default_trajectory_point_def
        default_path_point_def DBL_MAX_def kEps_def)

lemma shuffled_not_reinit: "\<not> takes_reinit_branch (estop_cfg 5 1 3) shuffled_planner 103"
  by (simp add: takes_reinit_branch_def stitching_lon_lat_diff_def Let_def shuffled_facts
        shuffled_indices hist_point_fields GetLatAndLonDistFromRefPoint_def estop_cfg_def)

lemma shuffled_normal_indices:
  "stitching_forward_index shuffled_planner 103 1 = 2"
  "stitching_first_index shuffled_planner 103 2 = 0"
  by (simp_all add: stitching_forward_index_def stitching_first_index_def Let_def
        shuffled_facts shuffled_indices slice_start_index_def)

lemma axis_at_2_not_reinit: "\<not> takes_reinit_branch (estop_cfg 5 1 3) (axis_planner_at 2 0) 102"
  by (simp add: takes_reinit_branch_def stitching_lon_lat_diff_def Let_def axis_planner_at_facts
        axis_facts axis_more_facts axis_time_indices axis_position_indices hist_point_fields
        GetLatAndLonDistFromRefPoint_def estop_cfg_def)

lemma axis_at_2_normal_indices:
  "stitching_forward_index (axis_planner_at 2 0) 102 (1 / 10) = 3"
  "stitching_first_index (axis_planner_at 2 0) 102 4294967293 = 5"
  by (simp_all add: stitching_forward_index_def stitching_first_index_def Let_def
        axis_planner_at_facts axis_facts axis_time_indices axis_position_indices
        slice_start_index_def)

subsection \<open>The claims about stitching\<close>

text \<open>
  C4, as the code has it. \<open>GetStitchingTrajectory\<close> returns exactly one point when there is
  no history trajectory or the history is empty; when the history is ordered by relative
  time and the current relative time is before that of its first point; when the
  time-matched index is the last index; when the lateral deviation exceeds its threshold;
  and when the longitudinal deviation exceeds its threshold, for a vehicle position at
  which the longitudinal distance of \<open>GetLatAndLonDistFromRefPoint\<close> is the one of the
  specification's projection. The deviations are those of the specification. And in
  every case the result is a non-empty sequence when the cycle time is not negative and
  the history length and the number of preserved points are below \<open>2 ^ 31\<close>.
\<close>

theorem GetStitchingTrajectory_reinit_single_point:
  "(let H = trajectory_points (history_trajectory mp);
        relative = now - stamp (history_trajectory mp);
        deviation = spec_lon_lat_deviation mp now
    in (\<not> has_history_trajectory mp
        \<or> H = []
        \<or> (time_ordered H \<and> relative < relative_time (hd H))
        \<or> time_matched_index relative H = length H - 1
        \<or> max_replan_lat_distance_threshold cfg < \<bar>snd deviation\<bar>
        \<or> (longitudinal_agrees mp \<and> max_replan_lon_distance_threshold cfg < \<bar>fst deviation\<bar>)
        \<longrightarrow> (\<exists>pt. GetStitchingTrajectory N cfg mp now cycle p = Inr [pt]))
     \<and> (0 \<le> cycle \<and> length H < 2 ^ 31 \<and> unat p < 2 ^ 31
        \<longrightarrow> (\<exists>st. GetStitchingTrajectory N cfg mp now cycle p = Inr st \<and> st \<noteq> [])))"
  unfolding Let_def
proof (intro conjI impI)
  assume "\<not> has_history_trajectory mp
           \<or> trajectory_points (history_trajectory mp) = []
           \<or> (time_ordered (trajectory_points (history_trajectory mp))
               \<and> now - stamp (history_trajectory mp)
                   < relative_time (hd (trajectory_points (history_trajectory mp))))
           \<or> time_matched_index (now - stamp (history_trajectory mp))
                (trajectory_points (history_trajectory mp))
               = length (trajectory_points (history_trajectory mp)) - 1
           \<or> max_replan_lat_distance_threshold cfg < \<bar>snd (spec_lon_lat_deviation mp now)\<bar>
           \<or> (longitudinal_agrees mp
               \<and> max_replan_lon_distance_threshold cfg < \<bar>fst (spec_lon_lat_deviation mp now)\<bar>)"
  then have "takes_reinit_branch cfg mp now"
    by (rule reinit_conditions_take_branch)
  then show "\<exists>pt. GetStitchingTrajectory N cfg mp now cycle p = Inr [pt]"
    using ComputeReinitStitchingTrajectory_single [of N cycle "vehicle_state mp"]
    by (auto simp: GetStitchingTrajectory_reinit)
next
  assume "0 \<le> cycle \<and> length (trajectory_points (history_trajectory mp)) < 2 ^ 31 \<and> unat p < 2 ^ 31"
  then show "\<exists>st. GetStitchingTrajectory N cfg mp now cycle p = Inr st \<and> st \<noteq> []"
    by (intro GetStitchingTrajectory_total) simp_all
qed

text \<open>
  C4 as stated fails in two ways. The relative times of a history need not be ordered: on
  the history with the relative times 5, 1, 4, 6 (stamped at 100), at time 103 the relative
  time 3 is before that of the first point, but the binary search of \<open>GetTimeMatchIndex\<close>
  finds the index 2, and with the vehicle on the point of index 2 the code returns the
  three points of the indices 0 to 2. And the result is not a non-empty sequence in every
  case: with the vehicle on the point of index 2 of the history along the x axis, at time
  102, the cycle time 1/10 and \<open>2 ^ 32 - 3\<close> points to preserve, the slice of the normal
  path would start at index 5, after its end at index 4.
\<close>

theorem GetStitchingTrajectory_reinit_conditions_too_wide:
  "103 - stamp (history_trajectory shuffled_planner)
     < relative_time (hd (trajectory_points (history_trajectory shuffled_planner)))
   \<and> map_sum id (map (pp_x \<circ> path_point))
       (GetStitchingTrajectory coast (estop_cfg 5 1 3) shuffled_planner 103 1 2) = Inr [0, 1, 2]
   \<and> GetStitchingTrajectory coast (estop_cfg 5 1 3) (axis_planner_at 2 0) 102 (1 / 10) (2 ^ 32 - 3)
       = Inl UndefinedBehaviour"
proof -
  have "GetStitchingTrajectory coast (estop_cfg 5 1 3) shuffled_planner 103 1 2
          = Inr (map (rebase (- 3) 2)
                  [(hist_point 0)\<lparr>relative_time := 5\<rparr>, (hist_point 1)\<lparr>relative_time := 1\<rparr>,
                   (hist_point 2)\<lparr>relative_time := 4\<rparr>])"
    by (simp add: GetStitchingTrajectory_normal [OF shuffled_not_reinit] Let_def
          shuffled_normal_indices shuffled_facts)
       (simp add: shuffled_history_def hist_point_fields)
  moreover have "GetStitchingTrajectory coast (estop_cfg 5 1 3) (axis_planner_at 2 0) 102 (1 / 10)
                   (2 ^ 32 - 3) = Inl UndefinedBehaviour"
    by (simp add: GetStitchingTrajectory_normal [OF axis_at_2_not_reinit] Let_def
          axis_at_2_normal_indices)
  ultimately show ?thesis
    by (simp add: rebase_fields hist_point_fields shuffled_facts)
qed

text \<open>The six conditions at the history along the x axis, and the non-empty result of the
  normal path: no history; an empty history; the time 99, before the first point; the time
  105, where the time-matched index is the last index; the vehicle 1 m beside the path;
  and the time 101 with the vehicle on the point of index 3, 2 m ahead of the
  time-matched point.\<close>

theorem GetStitchingTrajectory_reinit_single_point_witness:
  "(\<exists>pt. GetStitchingTrajectory coast (estop_cfg 5 1 3)
            (axis_planner\<lparr>has_history_trajectory := False\<rparr>) 103 1 2 = Inr [pt])
   \<and> (\<exists>pt. GetStitchingTrajectory coast (estop_cfg 5 1 3)
            (axis_planner\<lparr>history_trajectory := axis_history\<lparr>trajectory_points := []\<rparr>\<rparr>) 103 1 2
          = Inr [pt])
   \<and> (\<exists>pt. GetStitchingTrajectory coast (estop_cfg 5 1 3) axis_planner 99 1 2 = Inr [pt])
   \<and> (\<exists>pt. GetStitchingTrajectory coast (estop_cfg 5 1 3) axis_planner 105 1 2 = Inr [pt])
   \<and> (\<exists>pt. GetStitchingTrajectory coast (estop_cfg 5 1 3) (axis_planner_at 3 1) 103 1 2 = Inr [pt])
   \<and> (\<exists>pt. GetStitchingTrajectory coast (estop_cfg 5 1 3) axis_planner 101 1 2 = Inr [pt])
   \<and> (\<exists>st. GetStitchingTrajectory coast (estop_cfg 5 1 3) axis_planner 103 1 2 = Inr st \<and> st \<noteq> [])"
proof -
  let ?cfg = "estop_cfg 5 1 3"
  have none: "\<exists>pt. GetStitchingTrajectory coast ?cfg
                     (axis_planner\<lparr>has_history_trajectory := False\<rparr>) 103 1 2 = Inr [pt]"
    using GetStitchingTrajectory_reinit_single_point
            [of "axis_planner\<lparr>has_history_trajectory := False\<rparr>" 103 ?cfg coast 1 2]
    by (simp add: Let_def)
  have empty: "\<exists>pt. GetStitchingTrajectory coast ?cfg
                     (axis_planner\<lparr>history_trajectory := axis_history\<lparr>trajectory_points := []\<rparr>\<rparr>)
                     103 1 2 = Inr [pt]"
    using GetStitchingTrajectory_reinit_single_point
            [of "axis_planner\<lparr>history_trajectory := axis_history\<lparr>trajectory_points := []\<rparr>\<rparr>"
                103 ?cfg coast 1 2]
    by (simp add: Let_def)
  have early: "\<exists>pt. GetStitchingTrajectory coast ?cfg axis_planner 99 1 2 = Inr [pt]"
    using GetStitchingTrajectory_reinit_single_point [of axis_planner 99 ?cfg coast 1 2]
    by (simp add: Let_def axis_planner_facts axis_facts axis_more_facts hist_point_fields)
  have late: "\<exists>pt. GetStitchingTrajectory coast ?cfg axis_planner 105 1 2 = Inr [pt]"
    using GetStitchingTrajectory_reinit_single_point [of axis_planner 105 ?cfg coast 1 2]
    by (simp add: Let_def axis_planner_facts axis_facts axis_indices)
  have "snd (spec_lon_lat_deviation (axis_planner_at 3 1) 103) = - 1"
    by (simp add: spec_lon_lat_deviation_def Let_def axis_planner_at_facts axis_facts axis_indices
          axis_position_indices hist_point_fields frenet_projection_spec_def)
  then have beside: "\<exists>pt. GetStitchingTrajectory coast ?cfg (axis_planner_at 3 1) 103 1 2 = Inr [pt]"
    using GetStitchingTrajectory_reinit_single_point [of "axis_planner_at 3 1" 103 ?cfg coast 1 2]
    by (simp add: Let_def estop_cfg_def)
  have "fst (spec_lon_lat_deviation axis_planner 101) = - 2" and "longitudinal_agrees axis_planner"
    by (simp_all add: spec_lon_lat_deviation_def longitudinal_agrees_def Let_def axis_planner_facts
          axis_facts axis_more_facts axis_indices axis_time_indices hist_point_fields
          axis_state_fields frenet_projection_spec_def GetLatAndLonDistFromRefPoint_def)
  then have ahead: "\<exists>pt. GetStitchingTrajectory coast ?cfg axis_planner 101 1 2 = Inr [pt]"
    using GetStitchingTrajectory_reinit_single_point [of axis_planner 101 ?cfg coast 1 2]
    by (simp add: Let_def estop_cfg_def)
  have some: "\<exists>st. GetStitchingTrajectory coast ?cfg axis_planner 103 1 2 = Inr st \<and> st \<noteq> []"
    using GetStitchingTrajectory_reinit_single_point [of axis_planner 103 ?cfg coast 1 2]
    by (simp add: Let_def axis_planner_facts axis_facts)
  from none empty early late beside ahead some show ?thesis
    by blast
qed




text \<open>Where the longitudinal distance of \<open>GetLatAndLonDistFromRefPoint\<close> is not the one of
  the specification's projection, the branch that the code takes is not the one that the
  specification's deviations call for. With the vehicle at (2.2, 0.4) the specification's
  longitudinal deviation is 0.8, beyond the threshold 0.5, and the code returns the five
  points of the indices 0 to 4; with the vehicle at (3.3, 0.4) the specification's
  deviations are -0.3 and -0.4, within the thresholds, and the code returns the single
  point of the reinit branch.\<close>

lemma GetStitchingTrajectory_follows_code_projection:
  "spec_lon_lat_deviation (axis_planner_at (11 / 5) (2 / 5)) 103 = (4 / 5, - (2 / 5))
   \<and> map_sum id length
       (GetStitchingTrajectory coast (estop_cfg 5 1 3) (axis_planner_at (11 / 5) (2 / 5)) 103 1 2)
       = Inr 5
   \<and> spec_lon_lat_deviation (axis_planner_at (33 / 10) (2 / 5)) 103 = (- (3 / 10), - (2 / 5))
   \<and> map_sum id length
       (GetStitchingTrajectory coast (estop_cfg 5 1 3) (axis_planner_at (33 / 10) (2 / 5)) 103 1 2)
       = Inr 1"
proof -
  have dev: "spec_lon_lat_deviation (axis_planner_at (11 / 5) (2 / 5)) 103 = (4 / 5, - (2 / 5))"
      "spec_lon_lat_deviation (axis_planner_at (33 / 10) (2 / 5)) 103 = (- (3 / 10), - (2 / 5))"
    by (simp_all add: spec_lon_lat_deviation_def Let_def axis_planner_at_facts axis_facts
          axis_more_facts axis_indices axis_position_indices hist_point_fields
          frenet_projection_spec_def)
  have normal: "\<not> takes_reinit_branch (estop_cfg 5 1 3) (axis_planner_at (11 / 5) (2 / 5)) 103"
    by (simp add: takes_reinit_branch_def stitching_lon_lat_diff_def Let_def axis_planner_at_facts
          axis_facts axis_more_facts axis_indices axis_position_indices hist_point_fields
          GetLatAndLonDistFromRefPoint_def estop_cfg_def)
  have idx: "stitching_forward_index (axis_planner_at (11 / 5) (2 / 5)) 103 1 = 4"
      "stitching_first_index (axis_planner_at (11 / 5) (2 / 5)) 103 2 = 0"
    by (simp_all add: stitching_forward_index_def stitching_first_index_def Let_def
          axis_planner_at_facts axis_facts axis_indices axis_position_indices slice_start_index_def)
  have five: "map_sum id length
       (GetStitchingTrajectory coast (estop_cfg 5 1 3) (axis_planner_at (11 / 5) (2 / 5)) 103 1 2)
       = Inr 5"
    by (simp add: GetStitchingTrajectory_normal [OF normal] Let_def idx axis_planner_at_facts
          axis_facts)
  have reinit: "takes_reinit_branch (estop_cfg 5 1 3) (axis_planner_at (33 / 10) (2 / 5)) 103"
    by (simp add: takes_reinit_branch_def stitching_lon_lat_diff_def Let_def axis_planner_at_facts
          axis_facts axis_more_facts axis_indices axis_position_indices hist_point_fields
          GetLatAndLonDistFromRefPoint_def estop_cfg_def)
  have one: "map_sum id length
       (GetStitchingTrajectory coast (estop_cfg 5 1 3) (axis_planner_at (33 / 10) (2 / 5)) 103 1 2)
       = Inr 1"
    by (simp add: GetStitchingTrajectory_reinit [OF reinit] ComputeReinitStitchingTrajectory_def
          Let_def)
  from dev five one show ?thesis
    by simp
qed

text \<open>
  C10, as the code has it. When the matched index and the number of preserved points are
  both below \<open>2 ^ 31\<close>, the wrapped subtraction, truncated to \<^verbatim>\<open>int\<close> and clamped at 0,
  is the difference of the two numbers, or 0 when more points are to be preserved than
  precede the matched index. It does not exceed the matched index, and the slice from it
  through any index from the matched index on is not empty.
\<close>

theorem slice_start_index_below_2_31:
  assumes m: "matched_index < 2 ^ 31" and p: "unat preserve_points_num < 2 ^ 31"
  shows "slice_start_index matched_index preserve_points_num
           = (if unat preserve_points_num \<le> matched_index
              then matched_index - unat preserve_points_num else 0)
       \<and> slice_start_index matched_index preserve_points_num \<le> matched_index
       \<and> (\<forall>(history :: trajectory_point list) forward.
            matched_index \<le> forward \<and> forward < length history \<longrightarrow>
            take (forward + 1 - slice_start_index matched_index preserve_points_num)
              (drop (slice_start_index matched_index preserve_points_num) history) \<noteq> [])"
proof -
  have eq: "slice_start_index matched_index preserve_points_num
              = matched_index - unat preserve_points_num"
    by (rule slice_start_index_small [OF m p])
  then have le: "slice_start_index matched_index preserve_points_num \<le> matched_index"
    by simp
  from eq have eq_if: "slice_start_index matched_index preserve_points_num
           = (if unat preserve_points_num \<le> matched_index
              then matched_index - unat preserve_points_num else 0)"
    by simp
  have nonempty: "\<forall>(history :: trajectory_point list) forward.
            matched_index \<le> forward \<and> forward < length history \<longrightarrow>
            take (forward + 1 - slice_start_index matched_index preserve_points_num)
              (drop (slice_start_index matched_index preserve_points_num) history) \<noteq> []"
  proof (intro allI impI)
    fix history :: "trajectory_point list" and forward
    assume a: "matched_index \<le> forward \<and> forward < length history"
    with le have "slice_start_index matched_index preserve_points_num \<le> forward"
      by simp
    with a show "take (forward + 1 - slice_start_index matched_index preserve_points_num)
              (drop (slice_start_index matched_index preserve_points_num) history) \<noteq> []"
      using history_slice(1) by blast
  qed
  from eq_if le nonempty show ?thesis
    by blast
qed

text \<open>
  C10 as stated (for every number of preserved points) fails. For the matched index 3 and
  \<open>2 ^ 32 - 2\<close> points to preserve, the difference wraps to a word whose low 32 bits are
  5, so the slice starts at index 5, after the matched index. With the cycle time 1/10
  the forward index is 4, the slice from 5 up to 5 is empty, and the code reads
  \<^verbatim>\<open>back()\<close> of an empty vector.
\<close>

theorem slice_start_index_large_preserve:
  "slice_start_index 3 (2 ^ 32 - 2) = 5
   \<and> GetStitchingTrajectory coast (estop_cfg 5 1 3) axis_planner 103 (1 / 10) (2 ^ 32 - 2)
       = Inl UndefinedBehaviour"
proof -
  have "slice_start_index 3 (2 ^ 32 - 2) = 5"
    by (simp add: slice_start_index_def)
  moreover have "GetStitchingTrajectory coast (estop_cfg 5 1 3) axis_planner 103 (1 / 10) (2 ^ 32 - 2)
       = Inl UndefinedBehaviour"
    by (simp add: GetStitchingTrajectory_normal [OF axis_not_reinit] Let_def axis_normal_indices)
  ultimately show ?thesis
    by simp
qed

theorem slice_start_index_below_2_31_witness:
  "slice_start_index 3 5 = 0
   \<and> take (4 + 1 - slice_start_index 3 5)
        (drop (slice_start_index 3 5) (trajectory_points axis_history)) \<noteq> []"
proof -
  have m: "(3 :: nat) < 2 ^ 31" and p: "unat (5 :: 64 word) < 2 ^ 31"
    by simp_all
  note inst = slice_start_index_below_2_31 [OF m p]
  from inst have start: "slice_start_index 3 5 = 0"
    by simp
  from inst have "\<forall>(history :: trajectory_point list) forward.
            3 \<le> forward \<and> forward < length history \<longrightarrow>
            take (forward + 1 - slice_start_index 3 5) (drop (slice_start_index 3 5) history) \<noteq> []"
    by blast
  moreover have "(3 :: nat) \<le> 4 \<and> 4 < length (trajectory_points axis_history)"
    by (simp add: axis_facts)
  ultimately have "take (4 + 1 - slice_start_index 3 5)
        (drop (slice_start_index 3 5) (trajectory_points axis_history)) \<noteq> []"
    by blast
  with start show ?thesis
    by blast
qed

section \<open>Properties of RunOnce\<close>

lemma double_to_int_floor:
  assumes "0 \<le> r" and "r < 2 ^ 31"
  shows "double_to_int r = Inr \<lfloor>r\<rfloor>"
proof -
  have "\<lfloor>r\<rfloor> < 2 ^ 31"
    using assms(2) by (simp add: floor_less_iff)
  moreover have "0 \<le> \<lfloor>r\<rfloor>"
    using assms(1) by simp
  ultimately show ?thesis
    using assms(1) by (simp add: double_to_int_def Let_def)
qed

text \<open>The conversion of a quotient between -1 and \<open>2 ^ 31\<close> gives a number of points that
  is not negative.\<close>

lemma double_to_int_truncates:
  assumes "- 1 < r" and "r < 2 ^ 31"
  shows "\<exists>n. double_to_int r = Inr n \<and> 0 \<le> n"
proof (cases "0 \<le> r")
  case True
  with double_to_int_floor [OF True assms(2)] show ?thesis
    by simp
next
  case False
  with assms(1) have "\<lceil>r\<rceil> = 0"
    by (simp add: ceiling_eq_iff)
  with False show ?thesis
    by (simp add: double_to_int_def Let_def)
qed

lemma GenerateEmergencyStopTrajectory_returns:
  assumes "delta_t cfg \<noteq> 0" and "- 1 < max_lookahead_time cfg / delta_t cfg"
      and "max_lookahead_time cfg / delta_t cfg < 2 ^ 31"
  shows "\<exists>points. GenerateEmergencyStopTrajectory cfg origin = Inr points"
proof -
  from double_to_int_truncates [OF assms(2,3)] obtain n where
    "double_to_int (max_lookahead_time cfg / delta_t cfg) = Inr n" "\<not> n < 0"
    by auto
  with assms(1) show ?thesis
    by (simp only: GenerateEmergencyStopTrajectory_def Let_def) simp
qed

text \<open>
  C2, as the code has it. In a cycle that got past the two early returns and in which
  stitching returned the sequence \<open>st\<close>: when \<open>GetReferenceLines\<close> returns false, or when it
  returns reference lines and the planner's \<open>Process\<close> returns false on the obstacles and
  planning targets of this cycle, and when the configured horizon divided by the time
  step, truncated, is a number of points that is not negative and fits an \<^verbatim>\<open>int\<close> (the
  time step is not 0 and the quotient is above -1 and below \<open>2 ^ 31\<close>), \<open>RunOnce\<close> returns,
  having published one more trajectory, whose status is \<open>EMERGENCYSTOP\<close>, whose stamp is
  the time of this cycle and whose points are those of \<open>GenerateEmergencyStopTrajectory\<close>
  at the last point of \<open>st\<close>; the history flag is false and the stored history trajectory
  is the one of before the cycle. (The loop rate is not 0, so that the cycle time is a
  number.)
\<close>

theorem RunOnce_failure_publishes_emergency_stop:
  assumes id: "ego_vehicle_id mp \<noteq> - 1"
      and ego: "map_of (objects_map mp) (ego_vehicle_id mp) = Some ego"
      and rate: "loop_rate cfg \<noteq> 0"
      and stitched: "GetStitchingTrajectory (env_GetNextStateAfterTime env) cfg
                       (mp\<lparr>ego_object := ego, vehicle_state := env_VehicleStateUpdate env ego\<rparr>)
                       (env_now env) (1 / real_of_int (loop_rate cfg))
                       (preserve_history_trajectory_point_num cfg) = Inr st"
      and failure: "env_GetReferenceLines env = None
                    \<or> (\<exists>ref_lines obs. env_GetReferenceLines env = Some ref_lines
                          \<and> GetKeyObstacle (env_PredictTrajectory env) cfg (objects_map mp)
                               (traffic_light_status_list mp) (traffic_lights_info_list mp)
                               (last st) (ego_vehicle_id mp) = Inr obs
                          \<and> env_Process env obs (last st)
                               (GetPlanningTargets cfg ref_lines (last st)) = None)"
      and step: "delta_t cfg \<noteq> 0"
      and horizon: "- 1 < max_lookahead_time cfg / delta_t cfg"
      and count: "max_lookahead_time cfg / delta_t cfg < 2 ^ 31"
  shows "\<exists>mp' t. RunOnce env cfg mp = Inr mp'
           \<and> published mp' = published mp @ [t]
           \<and> status t = EMERGENCYSTOP
           \<and> stamp t = env_now env
           \<and> GenerateEmergencyStopTrajectory cfg (last st) = Inr (trajectory_points t)
           \<and> \<not> has_history_trajectory mp'
           \<and> history_trajectory mp' = history_trajectory mp"
proof -
  define mp1 where "mp1 = mp\<lparr>ego_object := ego, vehicle_state := env_VehicleStateUpdate env ego\<rparr>"
  obtain points where points: "GenerateEmergencyStopTrajectory cfg (last st) = Inr points"
    using GenerateEmergencyStopTrajectory_returns [OF step horizon count] by blast
  define t where "t = \<lparr>trajectory_points = points, stamp = env_now env, status = EMERGENCYSTOP\<rparr>"
  define mp' where "mp' = mp1\<lparr>has_history_trajectory := False, published := published mp1 @ [t]\<rparr>"
  have branch: "emergency_stop_branch cfg (env_now env) (last st) mp1 = Inr mp'"
    using points by (simp add: emergency_stop_branch_def mp'_def t_def)
  have ne: "st \<noteq> []"
    using stitched by (rule GetStitchingTrajectory_Inr_nonempty)
  have run: "RunOnce env cfg mp = Inr mp'"
    using failure
  proof
    assume "env_GetReferenceLines env = None"
    then show ?thesis
      using id ego rate stitched ne branch
      by (simp add: RunOnce_def Let_def mp1_def [symmetric])
  next
    assume "\<exists>ref_lines obs. env_GetReferenceLines env = Some ref_lines
                          \<and> GetKeyObstacle (env_PredictTrajectory env) cfg (objects_map mp)
                               (traffic_light_status_list mp) (traffic_lights_info_list mp)
                               (last st) (ego_vehicle_id mp) = Inr obs
                          \<and> env_Process env obs (last st)
                               (GetPlanningTargets cfg ref_lines (last st)) = None"
    then obtain ref_lines obs where "env_GetReferenceLines env = Some ref_lines"
        "GetKeyObstacle (env_PredictTrajectory env) cfg (objects_map mp1)
           (traffic_light_status_list mp1) (traffic_lights_info_list mp1)
           (last st) (ego_vehicle_id mp1) = Inr obs"
        "env_Process env obs (last st) (GetPlanningTargets cfg ref_lines (last st)) = None"
      by (auto simp: mp1_def)
    then show ?thesis
      using id ego rate stitched ne branch
      by (simp add: RunOnce_def Let_def mp1_def [symmetric])
  qed
  have "published mp' = published mp @ [t]" "status t = EMERGENCYSTOP" "stamp t = env_now env"
       "\<not> has_history_trajectory mp'" "history_trajectory mp' = history_trajectory mp"
       "trajectory_points t = points"
    by (simp_all add: mp'_def mp1_def t_def)
  with run points show ?thesis
    by auto
qed

text \<open>
  C2 as stated (whenever \<open>GetReferenceLines\<close> returns false, an emergency-stop trajectory
  is published and the history flag cleared) fails for a configuration with a negative
  horizon. At time 103, with no reference lines, the horizon -3 and the time step 1, the
  number of points is -3, \<^verbatim>\<open>resize\<close> is called with it and throws
  \<^verbatim>\<open>std::length_error\<close>: \<open>RunOnce\<close> does not return, nothing is published and the history
  flag is not cleared.
\<close>

theorem RunOnce_negative_horizon_throws:
  "env_GetReferenceLines quiet_env = None
   \<and> RunOnce quiet_env (estop_cfg (- 3) 1 3) axis_planner = Inl LengthError"
proof -
  let ?cfg = "estop_cfg (- 3) 1 3"
  have idx: "stitching_forward_index axis_planner 103 (1 / 10) = 4"
      "stitching_first_index axis_planner 103 0 = 3"
    by (simp_all add: stitching_forward_index_def stitching_first_index_def Let_def
          axis_planner_facts axis_facts axis_indices slice_start_index_def)
  have st: "GetStitchingTrajectory coast ?cfg axis_planner 103 (1 / 10) 0
              = Inr (map (rebase (- 3) 4) [hist_point 3, hist_point 4])"
    by (simp add: GetStitchingTrajectory_normal [OF axis_not_reinit] Let_def idx
          axis_planner_facts axis_facts)
       (simp add: axis_history_def hist_point_fields)
  have gen: "GenerateEmergencyStopTrajectory ?cfg origin = Inl LengthError" for origin
    by (simp add: GenerateEmergencyStopTrajectory_def double_to_int_def estop_cfg_def Let_def)
  have cfg: "loop_rate ?cfg = 10" "preserve_history_trajectory_point_num ?cfg = 0"
    by (simp_all add: estop_cfg_def)
  have env: "env_now quiet_env = 103" "env_GetReferenceLines quiet_env = None"
      "env_GetNextStateAfterTime quiet_env = coast"
      "env_VehicleStateUpdate quiet_env (object_at 1 0 0 0) = axis_state"
    by (simp_all add: quiet_env_def)
  have ego: "ego_vehicle_id axis_planner = 1"
      "map_of (objects_map axis_planner) 1 = Some (object_at 1 0 0 0)"
    by (simp_all add: axis_planner_def street_objects_def)
  have "RunOnce quiet_env ?cfg axis_planner = Inl LengthError"
    by (simp add: RunOnce_def Let_def ego env cfg axis_planner_updated st
          emergency_stop_branch_def gen)
  with env(2) show ?thesis
    by simp
qed

text \<open>The two failures in a cycle at time 103 on the history along the x axis, with the
  horizon 5 and the time step 1: no reference lines; and a reference line, but a planner
  that fails.\<close>

theorem RunOnce_failure_publishes_emergency_stop_witness:
  "(\<exists>mp' t. RunOnce quiet_env (estop_cfg 5 1 3) axis_planner = Inr mp'
       \<and> published mp' = [t] \<and> status t = EMERGENCYSTOP \<and> stamp t = 103
       \<and> \<not> has_history_trajectory mp' \<and> history_trajectory mp' = axis_history)
   \<and> (\<exists>mp' t. RunOnce failing_planner_env (estop_cfg 5 1 3) axis_planner = Inr mp'
       \<and> published mp' = [t] \<and> status t = EMERGENCYSTOP \<and> stamp t = 103
       \<and> \<not> has_history_trajectory mp' \<and> history_trajectory mp' = axis_history)"
proof -
  let ?cfg = "estop_cfg 5 1 3"
  have id: "ego_vehicle_id axis_planner \<noteq> - 1"
    by (simp add: axis_planner_def)
  have ego: "map_of (objects_map axis_planner) (ego_vehicle_id axis_planner) = Some (object_at 1 0 0 0)"
    by (simp add: axis_planner_def street_objects_def)
  have rate: "loop_rate ?cfg \<noteq> 0" and step: "delta_t ?cfg \<noteq> 0"
    and horizon: "- 1 < max_lookahead_time ?cfg / delta_t ?cfg"
    and count: "max_lookahead_time ?cfg / delta_t ?cfg < 2 ^ 31"
    by (simp_all add: estop_cfg_def)
  have "\<exists>st. GetStitchingTrajectory coast ?cfg axis_planner 103 (1 / real_of_int (loop_rate ?cfg))
               (preserve_history_trajectory_point_num ?cfg) = Inr st \<and> st \<noteq> []"
    by (rule GetStitchingTrajectory_total) (simp_all add: estop_cfg_def axis_planner_facts axis_facts)
  then obtain st where
    st: "GetStitchingTrajectory coast ?cfg axis_planner 103 (1 / real_of_int (loop_rate ?cfg))
               (preserve_history_trajectory_point_num ?cfg) = Inr st"
    by blast
  obtain obs where
    obs: "GetKeyObstacle no_prediction ?cfg (objects_map axis_planner)
            (traffic_light_status_list axis_planner) (traffic_lights_info_list axis_planner)
            (last st) (ego_vehicle_id axis_planner) = Inr obs"
    using GetKeyObstacle_sources [OF ego] by blast
  have st_quiet: "GetStitchingTrajectory (env_GetNextStateAfterTime quiet_env) ?cfg
                       (axis_planner\<lparr>ego_object := object_at 1 0 0 0,
                          vehicle_state := env_VehicleStateUpdate quiet_env (object_at 1 0 0 0)\<rparr>)
                       (env_now quiet_env) (1 / real_of_int (loop_rate ?cfg))
                       (preserve_history_trajectory_point_num ?cfg) = Inr st"
    using st by (simp add: quiet_env_def axis_planner_updated)
  have fail_quiet: "env_GetReferenceLines quiet_env = None
                    \<or> (\<exists>ref_lines obs. env_GetReferenceLines quiet_env = Some ref_lines
                          \<and> GetKeyObstacle (env_PredictTrajectory quiet_env) ?cfg
                               (objects_map axis_planner) (traffic_light_status_list axis_planner)
                               (traffic_lights_info_list axis_planner)
                               (last st) (ego_vehicle_id axis_planner) = Inr obs
                          \<and> env_Process quiet_env obs (last st)
                               (GetPlanningTargets ?cfg ref_lines (last st)) = None)"
    by (simp add: quiet_env_def)
  have st_fail: "GetStitchingTrajectory (env_GetNextStateAfterTime failing_planner_env) ?cfg
                       (axis_planner\<lparr>ego_object := object_at 1 0 0 0,
                          vehicle_state := env_VehicleStateUpdate failing_planner_env (object_at 1 0 0 0)\<rparr>)
                       (env_now failing_planner_env) (1 / real_of_int (loop_rate ?cfg))
                       (preserve_history_trajectory_point_num ?cfg) = Inr st"
    using st by (simp add: failing_planner_env_def quiet_env_def axis_planner_updated)
  have "env_GetReferenceLines failing_planner_env = Some [straight_line]
          \<and> GetKeyObstacle (env_PredictTrajectory failing_planner_env) ?cfg
               (objects_map axis_planner) (traffic_light_status_list axis_planner)
               (traffic_lights_info_list axis_planner)
               (last st) (ego_vehicle_id axis_planner) = Inr obs
          \<and> env_Process failing_planner_env obs (last st)
               (GetPlanningTargets ?cfg [straight_line] (last st)) = None"
    using obs by (simp add: failing_planner_env_def quiet_env_def)
  then have fail_fail: "env_GetReferenceLines failing_planner_env = None
                    \<or> (\<exists>ref_lines obs. env_GetReferenceLines failing_planner_env = Some ref_lines
                          \<and> GetKeyObstacle (env_PredictTrajectory failing_planner_env) ?cfg
                               (objects_map axis_planner) (traffic_light_status_list axis_planner)
                               (traffic_lights_info_list axis_planner)
                               (last st) (ego_vehicle_id axis_planner) = Inr obs
                          \<and> env_Process failing_planner_env obs (last st)
                               (GetPlanningTargets ?cfg ref_lines (last st)) = None)"
    by blast
  from RunOnce_failure_publishes_emergency_stop [OF id ego rate st_quiet fail_quiet step horizon count]
  have first: "\<exists>mp' t. RunOnce quiet_env ?cfg axis_planner = Inr mp'
       \<and> published mp' = [t] \<and> status t = EMERGENCYSTOP \<and> stamp t = 103
       \<and> \<not> has_history_trajectory mp' \<and> history_trajectory mp' = axis_history"
    by (simp add: quiet_env_def axis_planner_def) blast
  from RunOnce_failure_publishes_emergency_stop [OF id ego rate st_fail fail_fail step horizon count]
  have second: "\<exists>mp' t. RunOnce failing_planner_env ?cfg axis_planner = Inr mp'
       \<and> published mp' = [t] \<and> status t = EMERGENCYSTOP \<and> stamp t = 103
       \<and> \<not> has_history_trajectory mp' \<and> history_trajectory mp' = axis_history"
    by (simp add: failing_planner_env_def quiet_env_def axis_planner_def) blast
  from first second show ?thesis
    by blast
qed

end
